theory Spec2Isabelle
  imports Main "HOL-Library.Word"
begin

unbundle bit_operations_syntax

section \<open>Machine integers and constants of Dualsense.h\<close>

type_synonym u8 = "8 word"
type_synonym u16 = "16 word"
type_synonym u32 = "32 word"

definition PS_OUTPUT_CRC32_SEED :: u8 where "PS_OUTPUT_CRC32_SEED = 0xA2"

definition DS_INPUT_REPORT_USB :: u8 where "DS_INPUT_REPORT_USB = 0x01"
definition DS_INPUT_REPORT_USB_SIZE :: int where "DS_INPUT_REPORT_USB_SIZE = 64"
definition DS_INPUT_REPORT_BT :: u8 where "DS_INPUT_REPORT_BT = 0x31"
definition DS_INPUT_REPORT_BT_SIZE :: int where "DS_INPUT_REPORT_BT_SIZE = 78"
definition DS_OUTPUT_REPORT_USB :: u8 where "DS_OUTPUT_REPORT_USB = 0x02"
definition DS_OUTPUT_REPORT_BT :: u8 where "DS_OUTPUT_REPORT_BT = 0x31"

definition DS_OUTPUT_TAG :: u8 where "DS_OUTPUT_TAG = 0x10"

text \<open>\<^verbatim>\<open>#define BIT(n) (1 << n)\<close>, stored into a byte.\<close>

definition BIT :: "nat \<Rightarrow> u8" where "BIT n = push_bit n 1"

definition DS_OUTPUT_VALID_FLAG0_RIGHT_TRIGGER_MOTOR_ENABLE :: u8 where
  "DS_OUTPUT_VALID_FLAG0_RIGHT_TRIGGER_MOTOR_ENABLE = BIT 2"
definition DS_OUTPUT_VALID_FLAG0_LEFT_TRIGGER_MOTOR_ENABLE :: u8 where
  "DS_OUTPUT_VALID_FLAG0_LEFT_TRIGGER_MOTOR_ENABLE = BIT 3"
definition DS_OUTPUT_VALID_FLAG0_HEADPHONE_VOLUME_ENABLE :: u8 where
  "DS_OUTPUT_VALID_FLAG0_HEADPHONE_VOLUME_ENABLE = BIT 4"
definition DS_OUTPUT_VALID_FLAG0_SPEAKER_VOLUME_ENABLE :: u8 where
  "DS_OUTPUT_VALID_FLAG0_SPEAKER_VOLUME_ENABLE = BIT 5"
definition DS_OUTPUT_VALID_FLAG0_AUDIO_CONTROL_ENABLE :: u8 where
  "DS_OUTPUT_VALID_FLAG0_AUDIO_CONTROL_ENABLE = BIT 7"

definition DS_OUTPUT_VALID_FLAG1_MIC_MUTE_LED_CONTROL_ENABLE :: u8 where
  "DS_OUTPUT_VALID_FLAG1_MIC_MUTE_LED_CONTROL_ENABLE = BIT 0"
definition DS_OUTPUT_VALID_FLAG1_POWER_SAVE_CONTROL_ENABLE :: u8 where
  "DS_OUTPUT_VALID_FLAG1_POWER_SAVE_CONTROL_ENABLE = BIT 1"
definition DS_OUTPUT_VALID_FLAG1_LIGHTBAR_CONTROL_ENABLE :: u8 where
  "DS_OUTPUT_VALID_FLAG1_LIGHTBAR_CONTROL_ENABLE = BIT 2"
definition DS_OUTPUT_VALID_FLAG1_PLAYER_INDICATOR_CONTROL_ENABLE :: u8 where
  "DS_OUTPUT_VALID_FLAG1_PLAYER_INDICATOR_CONTROL_ENABLE = BIT 4"
definition DS_OUTPUT_VALID_FLAG1_VIBRATION_ATTENUATION_ENABLE :: u8 where
  "DS_OUTPUT_VALID_FLAG1_VIBRATION_ATTENUATION_ENABLE = BIT 6"

definition DS_OUTPUT_VALID_FLAG2_LIGHTBAR_SETUP_CONTROL_ENABLE :: u8 where
  "DS_OUTPUT_VALID_FLAG2_LIGHTBAR_SETUP_CONTROL_ENABLE = BIT 1"
definition DS_OUTPUT_POWER_SAVE_CONTROL_MIC_MUTE :: u8 where
  "DS_OUTPUT_POWER_SAVE_CONTROL_MIC_MUTE = BIT 4"
definition DS_OUTPUT_LIGHTBAR_SETUP_LIGHT_ON :: u8 where
  "DS_OUTPUT_LIGHTBAR_SETUP_LIGHT_ON = BIT 0"
definition DS_OUTPUT_LIGHTBAR_SETUP_LIGHT_OUT :: u8 where
  "DS_OUTPUT_LIGHTBAR_SETUP_LIGHT_OUT = BIT 1"

definition DS_OUTPUT_AUDIO_OUTPUT_PATH_SHIFT :: nat where
  "DS_OUTPUT_AUDIO_OUTPUT_PATH_SHIFT = 4"

definition DS_STATUS_BATTERY_CAPACITY :: u8 where "DS_STATUS_BATTERY_CAPACITY = 0xF"
definition DS_STATUS_CHARGING :: u8 where "DS_STATUS_CHARGING = 0xF0"
definition DS_STATUS_CHARGING_SHIFT :: nat where "DS_STATUS_CHARGING_SHIFT = 4"

definition DS_TRIGGER_EFFECT_OFF :: u8 where "DS_TRIGGER_EFFECT_OFF = 0x05"
definition DS_TRIGGER_EFFECT_FEEDBACK :: u8 where "DS_TRIGGER_EFFECT_FEEDBACK = 0x21"
definition DS_TRIGGER_EFFECT_BOW :: u8 where "DS_TRIGGER_EFFECT_BOW = 0x22"
definition DS_TRIGGER_EFFECT_GALLOPING :: u8 where "DS_TRIGGER_EFFECT_GALLOPING = 0x23"
definition DS_TRIGGER_EFFECT_WEAPON :: u8 where "DS_TRIGGER_EFFECT_WEAPON = 0x25"
definition DS_TRIGGER_EFFECT_VIBRATION :: u8 where "DS_TRIGGER_EFFECT_VIBRATION = 0x26"
definition DS_TRIGGER_EFFECT_MACHINE :: u8 where "DS_TRIGGER_EFFECT_MACHINE = 0x27"

section \<open>The packed report structures\<close>

text \<open>
  \<^verbatim>\<open>struct dualsense_output_report_common\<close>: one field per member, in the order of the
  declaration. The arrays \<^verbatim>\<open>right_trigger_param[10]\<close>, \<^verbatim>\<open>left_trigger_param[10]\<close>,
  \<^verbatim>\<open>reserved2[4]\<close> and \<^verbatim>\<open>reserved3[2]\<close> are byte lists.
\<close>

record dualsense_output_report_common =
  valid_flag0 :: u8
  valid_flag1 :: u8
  motor_right :: u8
  motor_left :: u8
  headphone_audio_volume :: u8
  speaker_audio_volume :: u8
  internal_microphone_volume :: u8
  audio_flags :: u8
  mute_button_led :: u8
  power_save_control :: u8
  right_trigger_motor_mode :: u8
  right_trigger_param :: "u8 list"
  left_trigger_motor_mode :: u8
  left_trigger_param :: "u8 list"
  reserved2 :: "u8 list"
  reduce_motor_power :: u8
  audio_flags2 :: u8
  valid_flag2 :: u8
  reserved3 :: "u8 list"
  lightbar_setup :: u8
  led_brightness :: u8
  player_leds :: u8
  lightbar_red :: u8
  lightbar_green :: u8
  lightbar_blue :: u8

text \<open>\<^verbatim>\<open>struct dualsense_output_report_bt\<close>, with \<^verbatim>\<open>reserved[24]\<close>.\<close>

record dualsense_output_report_bt =
  bt_report_id :: u8
  seq_tag :: u8
  tag :: u8
  bt_common :: dualsense_output_report_common
  bt_reserved :: "u8 list"
  crc32 :: u32

text \<open>\<^verbatim>\<open>struct dualsense_output_report_usb\<close>, with \<^verbatim>\<open>reserved[15]\<close>.\<close>

record dualsense_output_report_usb =
  usb_report_id :: u8
  usb_common :: dualsense_output_report_common
  usb_reserved :: "u8 list"

text \<open>
  The structures are \<^verbatim>\<open>__attribute__((packed))\<close>: their bytes in memory are the members
  one after the other without padding. A \<^verbatim>\<open>uint32_t\<close> member lies in memory with its
  least significant byte first (the byte order of the hosts the tool is built for).
\<close>

definition le32 :: "u32 \<Rightarrow> u8 list" where
  "le32 w = [ucast w, ucast (drop_bit 8 w), ucast (drop_bit 16 w), ucast (drop_bit 24 w)]"

definition common_bytes :: "dualsense_output_report_common \<Rightarrow> u8 list" where
  "common_bytes c =
     [valid_flag0 c, valid_flag1 c, motor_right c, motor_left c,
      headphone_audio_volume c, speaker_audio_volume c, internal_microphone_volume c,
      audio_flags c, mute_button_led c, power_save_control c,
      right_trigger_motor_mode c] @ right_trigger_param c @
     [left_trigger_motor_mode c] @ left_trigger_param c @
     reserved2 c @
     [reduce_motor_power c, audio_flags2 c, valid_flag2 c] @
     reserved3 c @
     [lightbar_setup c, led_brightness c, player_leds c,
      lightbar_red c, lightbar_green c, lightbar_blue c]"

definition bt_bytes :: "dualsense_output_report_bt \<Rightarrow> u8 list" where
  "bt_bytes b =
     [bt_report_id b, seq_tag b, tag b] @ common_bytes (bt_common b) @ bt_reserved b @
     le32 (crc32 b)"

definition usb_bytes :: "dualsense_output_report_usb \<Rightarrow> u8 list" where
  "usb_bytes u = [usb_report_id u] @ common_bytes (usb_common u) @ usb_reserved u"

text \<open>\<^verbatim>\<open>memset(p, 0, sizeof(*p))\<close> on each structure.\<close>

definition zero_common :: dualsense_output_report_common where
  "zero_common =
     \<lparr>valid_flag0 = 0, valid_flag1 = 0, motor_right = 0, motor_left = 0,
      headphone_audio_volume = 0, speaker_audio_volume = 0, internal_microphone_volume = 0,
      audio_flags = 0, mute_button_led = 0, power_save_control = 0,
      right_trigger_motor_mode = 0, right_trigger_param = replicate 10 0,
      left_trigger_motor_mode = 0, left_trigger_param = replicate 10 0,
      reserved2 = replicate 4 0,
      reduce_motor_power = 0, audio_flags2 = 0, valid_flag2 = 0,
      reserved3 = replicate 2 0,
      lightbar_setup = 0, led_brightness = 0, player_leds = 0,
      lightbar_red = 0, lightbar_green = 0, lightbar_blue = 0\<rparr>"

definition zero_bt :: dualsense_output_report_bt where
  "zero_bt =
     \<lparr>bt_report_id = 0, seq_tag = 0, tag = 0, bt_common = zero_common,
      bt_reserved = replicate 24 0, crc32 = 0\<rparr>"

definition zero_usb :: dualsense_output_report_usb where
  "zero_usb = \<lparr>usb_report_id = 0, usb_common = zero_common, usb_reserved = replicate 15 0\<rparr>"

text \<open>\<^verbatim>\<open>sizeof\<close> of the two packed structures: the sum of the member sizes.\<close>

definition sizeof_bt :: u8 where "sizeof_bt = 1 + 1 + 1 + 47 + 24 + 4"
definition sizeof_usb :: u8 where "sizeof_usb = 1 + 47 + 15"

text \<open>
  \<^verbatim>\<open>struct dualsense_output_report\<close>: \<^verbatim>\<open>len\<close>, and the pointers \<^verbatim>\<open>bt\<close> and \<^verbatim>\<open>usb\<close> into
  the buffer, \<open>None\<close> for \<^verbatim>\<open>NULL\<close>. The pointers \<^verbatim>\<open>data\<close> and \<^verbatim>\<open>common\<close> alias the same
  buffer: \<open>rp_data\<close> reads the buffer as bytes, \<open>rp_common_update\<close> writes through
  \<^verbatim>\<open>rp.common->\<close>.
\<close>

record dualsense_output_report =
  rp_len :: u8
  rp_bt :: "dualsense_output_report_bt option"
  rp_usb :: "dualsense_output_report_usb option"

definition rp_data :: "dualsense_output_report \<Rightarrow> u8 list" where
  "rp_data rp =
     (case rp_bt rp of
        Some b \<Rightarrow> bt_bytes b
      | None \<Rightarrow> (case rp_usb rp of Some u \<Rightarrow> usb_bytes u | None \<Rightarrow> []))"

definition rp_common_update ::
  "(dualsense_output_report_common \<Rightarrow> dualsense_output_report_common) \<Rightarrow>
   dualsense_output_report \<Rightarrow> dualsense_output_report" where
  "rp_common_update f rp =
     (case rp_bt rp of
        Some b \<Rightarrow> rp\<lparr>rp_bt := Some (b\<lparr>bt_common := f (bt_common b)\<rparr>)\<rparr>
      | None \<Rightarrow>
         (case rp_usb rp of
            Some u \<Rightarrow> rp\<lparr>rp_usb := Some (u\<lparr>usb_common := f (usb_common u)\<rparr>)\<rparr>
          | None \<Rightarrow> rp))"

section \<open>The session and the transport\<close>

text \<open>
  \<^verbatim>\<open>struct dualsense\<close>. The handle \<^verbatim>\<open>dev\<close> is modelled by what has been handed to
  \<^verbatim>\<open>hid_write\<close> on it, oldest report first; \<^verbatim>\<open>mac_address\<close> plays no part in the
  report codec and is left out.
\<close>

record dualsense =
  bt :: bool
  dev :: "u8 list list"
  output_seq :: u8

text \<open>\<^verbatim>\<open>hid_write(ds->dev, data, len)\<close>: the first \<open>len\<close> bytes at \<open>data\<close> go to the device.\<close>

definition hid_write :: "dualsense \<Rightarrow> u8 list \<Rightarrow> u8 \<Rightarrow> dualsense" where
  "hid_write ds data len = ds\<lparr>dev := dev ds @ [take (unat len) data]\<rparr>"

text \<open>
  \<^verbatim>\<open>dualsense_init\<close> on its successful path: \<^verbatim>\<open>memset(ds, 0, sizeof(*ds))\<close>, then
  \<^verbatim>\<open>ds->bt = dev->interface_number == -1\<close>.
\<close>

definition dualsense_init :: "int \<Rightarrow> dualsense" where
  "dualsense_init interface_number =
     \<lparr>bt = (interface_number = - 1), dev = [], output_seq = 0\<rparr>"

text \<open>
  Modelled from the spec: the checksum of \<^verbatim>\<open>dualsensectl/crc32.h\<close>, which is not among
  the sources. The spec calls it CRC32 with an explicit start value and an explicit
  final complement; it is taken to be the reflected CRC-32 (polynomial 0xEDB88320)
  without start value and final complement of its own. \<open>crc32_bits\<close> is its inner
  loop, the eight shifts for one byte.
\<close>

fun crc32_bits :: "nat \<Rightarrow> u32 \<Rightarrow> u32" where
  "crc32_bits 0 crc = crc"
| "crc32_bits (Suc n) crc =
     crc32_bits n (drop_bit 1 crc XOR (if bit crc 0 then 0xEDB88320 else 0))"

text \<open>
  Modelled from the spec: \<^verbatim>\<open>crc32_le(crc, p, len)\<close> of the same header, over the \<open>len\<close>
  bytes at \<open>p\<close>, continuing from \<open>crc\<close>.
\<close>

fun crc32_le :: "u32 \<Rightarrow> u8 list \<Rightarrow> u32" where
  "crc32_le crc [] = crc"
| "crc32_le crc (p # ps) = crc32_le (crc32_bits 8 (crc XOR ucast p)) ps"

section \<open>Building and sending an output report\<close>

definition dualsense_init_output_report ::
  "dualsense \<Rightarrow> dualsense \<times> dualsense_output_report" where
  "dualsense_init_output_report ds =
     (if bt ds then
        let b = zero_bt;
            b = b\<lparr>bt_report_id := DS_OUTPUT_REPORT_BT\<rparr>;
            b = b\<lparr>tag := DS_OUTPUT_TAG\<rparr>;
            b = b\<lparr>seq_tag := push_bit 4 (output_seq ds) OR 0x0\<rparr>;
            ds = ds\<lparr>output_seq := output_seq ds + 1\<rparr>;
            ds = (if output_seq ds = 16 then ds\<lparr>output_seq := 0\<rparr> else ds)
        in (ds, \<lparr>rp_len = sizeof_bt, rp_bt = Some b, rp_usb = None\<rparr>)
      else
        let u = zero_usb;
            u = u\<lparr>usb_report_id := DS_OUTPUT_REPORT_USB\<rparr>
        in (ds, \<lparr>rp_len = sizeof_usb, rp_bt = None, rp_usb = Some u\<rparr>))"

text \<open>
  \<^verbatim>\<open>dualsense_send_output_report\<close>. Where \<^verbatim>\<open>report->bt\<close> is set, \<^verbatim>\<open>report->len\<close> is the
  size of the Bluetooth structure, so \<^verbatim>\<open>report->len - 4\<close> does not go below zero. A
  failing \<^verbatim>\<open>hid_write\<close> only prints a message; the call is recorded either way.
\<close>

definition dualsense_send_output_report ::
  "dualsense \<Rightarrow> dualsense_output_report \<Rightarrow> dualsense" where
  "dualsense_send_output_report ds report =
     (let report =
        (case rp_bt report of
           Some b \<Rightarrow>
             let seed = PS_OUTPUT_CRC32_SEED;
                 crc = crc32_le 0xFFFFFFFF [seed];
                 crc = NOT (crc32_le crc (take (unat (rp_len report) - 4) (rp_data report)))
             in report\<lparr>rp_bt := Some (b\<lparr>crc32 := crc\<rparr>)\<rparr>
         | None \<Rightarrow> report)
      in hid_write ds (rp_data report) (rp_len report))"

section \<open>Trigger effects\<close>

text \<open>
  What a command hands back: \<open>Success\<close> is \<^verbatim>\<open>return 0\<close>; \<open>Failure n m\<close> is
  \<^verbatim>\<open>fprintf(stderr, m)\<close> followed by \<^verbatim>\<open>return n\<close>, the message without its final
  newline and without what a conversion such as \<^verbatim>\<open>%d\<close> adds. Every command also hands
  back the session, which it may have changed through the pointer \<^verbatim>\<open>ds\<close>.
\<close>

datatype result = Success | Failure int string

definition command_trigger ::
  "dualsense \<Rightarrow> string \<Rightarrow> u8 \<Rightarrow> u8 \<Rightarrow> u8 \<Rightarrow> u8 \<Rightarrow> u8 \<Rightarrow> u8 \<Rightarrow> u8 \<Rightarrow> u8 \<Rightarrow> u8 \<Rightarrow> u8 \<Rightarrow>
   result \<times> dualsense" where
  "command_trigger ds trigger mode param1 param2 param3 param4 param5 param6 param7 param8
     param9 =
     (let (ds, rp) = dualsense_init_output_report ds;
          rp = (if trigger = ''right'' \<or> trigger = ''both''
                then rp_common_update
                       (\<lambda>c. c\<lparr>valid_flag0 := DS_OUTPUT_VALID_FLAG0_RIGHT_TRIGGER_MOTOR_ENABLE\<rparr>) rp
                else rp);
          rp = (if trigger = ''left'' \<or> trigger = ''both''
                then rp_common_update
                       (\<lambda>c. c\<lparr>valid_flag0 :=
                                 valid_flag0 c OR DS_OUTPUT_VALID_FLAG0_LEFT_TRIGGER_MOTOR_ENABLE\<rparr>) rp
                else rp);
          rp = rp_common_update (\<lambda>c. c\<lparr>right_trigger_motor_mode := mode\<rparr>) rp;
          rp = rp_common_update
                 (\<lambda>c. c\<lparr>right_trigger_param :=
                           (right_trigger_param c)
                             [0 := param1, 1 := param2, 2 := param3, 3 := param4, 4 := param5,
                              5 := param6, 6 := param7, 7 := param8, 8 := param9]\<rparr>) rp;
          rp = rp_common_update (\<lambda>c. c\<lparr>left_trigger_motor_mode := mode\<rparr>) rp;
          rp = rp_common_update
                 (\<lambda>c. c\<lparr>left_trigger_param :=
                           (left_trigger_param c)
                             [0 := param1, 1 := param2, 2 := param3, 3 := param4, 4 := param5,
                              5 := param6, 6 := param7, 7 := param8, 8 := param9]\<rparr>) rp;
          ds = dualsense_send_output_report ds rp
      in (Success, ds))"

definition command_trigger_off :: "dualsense \<Rightarrow> string \<Rightarrow> result \<times> dualsense" where
  "command_trigger_off ds trigger =
     command_trigger ds trigger DS_TRIGGER_EFFECT_OFF 0 0 0 0 0 0 0 0 0"

text \<open>
  The loop of \<^verbatim>\<open>trigger_bitpacking_array\<close> over \<open>i = 0, \<dots>, 9\<close>, carrying
  \<open>(strength_zones, active_zones)\<close>; \<open>None\<close> is the early \<^verbatim>\<open>return 1\<close>. The operand of
  each shift is promoted to \<^verbatim>\<open>int\<close> in C and stays below \<open>2 ^ 30\<close> here.
\<close>

function bitpacking_loop :: "nat \<Rightarrow> u8 list \<Rightarrow> u32 \<times> u16 \<Rightarrow> (u32 \<times> u16) option" where
  "bitpacking_loop i strength (strength_zones, active_zones) =
     (if i < 10 then
        if 8 < strength ! i then None
        else if 0 < strength ! i then
          let strength_value = (strength ! i - 1) AND 0x07
          in bitpacking_loop (i + 1) strength
               (strength_zones OR push_bit (3 * i) (ucast strength_value),
                active_zones OR push_bit i 1)
        else bitpacking_loop (i + 1) strength (strength_zones, active_zones)
      else Some (strength_zones, active_zones))"
  by pat_completeness auto
termination
  by (relation "measure (\<lambda>(i, strength, acc). 10 - i)") auto

definition trigger_bitpacking_array ::
  "dualsense \<Rightarrow> string \<Rightarrow> u8 \<Rightarrow> u8 list \<Rightarrow> u8 \<Rightarrow> result \<times> dualsense" where
  "trigger_bitpacking_array ds trigger mode strength frequency =
     (case bitpacking_loop 0 strength (0, 0) of
        None \<Rightarrow> (Failure 1 ''strengths must be between 0 and 8'', ds)
      | Some (strength_zones, active_zones) \<Rightarrow>
          command_trigger ds trigger mode
            (ucast (drop_bit 0 active_zones AND 0xff))
            (ucast (drop_bit 8 active_zones AND 0xff))
            (ucast (drop_bit 0 strength_zones AND 0xff))
            (ucast (drop_bit 8 strength_zones AND 0xff))
            (ucast (drop_bit 16 strength_zones AND 0xff))
            (ucast (drop_bit 24 strength_zones AND 0xff))
            0 0
            frequency)"

text \<open>\<^verbatim>\<open>for (int i = position; i < 10; i++) strength_array[i] = strength;\<close>\<close>

function fill_loop :: "nat \<Rightarrow> u8 \<Rightarrow> u8 list \<Rightarrow> u8 list" where
  "fill_loop i strength strength_array =
     (if i < 10 then fill_loop (i + 1) strength (strength_array[i := strength])
      else strength_array)"
  by pat_completeness auto
termination
  by (relation "measure (\<lambda>(i, strength, strength_array). 10 - i)") auto

definition command_trigger_feedback ::
  "dualsense \<Rightarrow> string \<Rightarrow> u8 \<Rightarrow> u8 \<Rightarrow> result \<times> dualsense" where
  "command_trigger_feedback ds trigger position strength =
     (if 9 < position then (Failure 1 ''position must be between 0 and 9'', ds)
      else if 8 < strength \<or> \<not> 0 < strength
      then (Failure 1 ''strength must be between 1 and 8'', ds)
      else
        let strength_array = fill_loop (unat position) strength (replicate 10 0)
        in trigger_bitpacking_array ds trigger DS_TRIGGER_EFFECT_FEEDBACK strength_array 0)"

text \<open>
  In the comparisons \<^verbatim>\<open>end_position < start_position+1\<close> both sides are promoted to
  \<^verbatim>\<open>int\<close>, so the sum does not wrap: they are compared as integers. The zone bitmap
  \<^verbatim>\<open>(uint16_t)((1 << start_position) | (1 << end_position))\<close> is computed only after
  the guards have bounded both positions by 9, so that neither shift leaves 16 bits.
\<close>

definition start_stop_zones :: "u8 \<Rightarrow> u8 \<Rightarrow> u16" where
  "start_stop_zones start_position end_position =
     push_bit (unat start_position) 1 OR push_bit (unat end_position) 1"

definition command_trigger_weapon ::
  "dualsense \<Rightarrow> string \<Rightarrow> u8 \<Rightarrow> u8 \<Rightarrow> u8 \<Rightarrow> result \<times> dualsense" where
  "command_trigger_weapon ds trigger start_position end_position strength =
     (if 7 < start_position \<or> start_position < 2
      then (Failure 1 ''start position must be between 2 and 7'', ds)
      else if 8 < end_position \<or> unat end_position < unat start_position + 1
      then (Failure 1 ''end position must be between start position+1 and 8'', ds)
      else if 8 < strength \<or> \<not> 0 < strength
      then (Failure 1 ''strength must be between 1 and 8'', ds)
      else
        let zones = start_stop_zones start_position end_position
        in command_trigger ds trigger DS_TRIGGER_EFFECT_WEAPON
             (ucast (drop_bit 0 zones AND 0xff))
             (ucast (drop_bit 8 zones AND 0xff))
             (strength - 1)
             0 0 0 0 0 0)"

definition command_trigger_bow ::
  "dualsense \<Rightarrow> string \<Rightarrow> u8 \<Rightarrow> u8 \<Rightarrow> u8 \<Rightarrow> u8 \<Rightarrow> result \<times> dualsense" where
  "command_trigger_bow ds trigger start_position end_position strength snap_force =
     (if 8 < start_position \<or> \<not> 0 < start_position
      then (Failure 1 ''start position must be between 0 and 8'', ds)
      else if 8 < end_position \<or> unat end_position < unat start_position + 1
      then (Failure 1 ''end position must be between start position+1 and 8'', ds)
      else if 8 < strength \<or> \<not> 0 < strength
      then (Failure 1 ''strength must be between 1 and 8'', ds)
      else if 8 < snap_force \<or> \<not> 0 < snap_force
      then (Failure 1 ''snap_force must be between 1 and 8'', ds)
      else
        let zones = start_stop_zones start_position end_position;
            force_pair = (ucast (((strength - 1) AND 0x07) OR
                                 push_bit 3 ((snap_force - 1) AND 0x07)) :: u32)
        in command_trigger ds trigger DS_TRIGGER_EFFECT_BOW
             (ucast (drop_bit 0 zones AND 0xff))
             (ucast (drop_bit 8 zones AND 0xff))
             (ucast (drop_bit 0 force_pair AND 0xff))
             0 0 0 0 0 0)"

text \<open>
  \<^verbatim>\<open>command_trigger_galloping\<close>; the remark it prints on \<^verbatim>\<open>stdout\<close> for a frequency above
  8 changes neither the report nor the return value and is left out.
\<close>

definition command_trigger_galloping ::
  "dualsense \<Rightarrow> string \<Rightarrow> u8 \<Rightarrow> u8 \<Rightarrow> u8 \<Rightarrow> u8 \<Rightarrow> u8 \<Rightarrow> result \<times> dualsense" where
  "command_trigger_galloping ds trigger start_position end_position first_foot second_foot
     frequency =
     (if 8 < start_position
      then (Failure 1 ''start position must be between 0 and 8'', ds)
      else if 9 < end_position \<or> unat end_position < unat start_position + 1
      then (Failure 1 ''end position must be between start position+1 and 9'', ds)
      else if 6 < first_foot
      then (Failure 1 ''first_foot must be between 0 and 8'', ds)
      else if 7 < second_foot \<or> unat second_foot < unat first_foot + 1
      then (Failure 1 ''second_foot must be between first_foot+1 and 8'', ds)
      else if \<not> 0 < frequency
      then (Failure 1 ''frequency must be greater than 0'', ds)
      else
        let zones = start_stop_zones start_position end_position;
            ratio = (ucast ((second_foot AND 0x07) OR push_bit 3 (first_foot AND 0x07)) :: u32)
        in command_trigger ds trigger DS_TRIGGER_EFFECT_GALLOPING
             (ucast (drop_bit 0 zones AND 0xff))
             (ucast (drop_bit 8 zones AND 0xff))
             (ucast (drop_bit 0 ratio AND 0xff))
             frequency
             0 0 0 0 0)"

definition command_trigger_machine ::
  "dualsense \<Rightarrow> string \<Rightarrow> u8 \<Rightarrow> u8 \<Rightarrow> u8 \<Rightarrow> u8 \<Rightarrow> u8 \<Rightarrow> u8 \<Rightarrow> result \<times> dualsense" where
  "command_trigger_machine ds trigger start_position end_position strength_a strength_b
     frequency period =
     (if 8 < start_position \<or> \<not> 0 < start_position
      then (Failure 1 ''start position must be between 1 and 8'', ds)
      else if 9 < end_position \<or> unat end_position < unat start_position + 1
      then (Failure 1 ''end position must be between start position+1 and 9'', ds)
      else if 7 < strength_a
      then (Failure 1 ''strength_a position must be between 0 and 7'', ds)
      else if 7 < strength_b
      then (Failure 1 ''strength_b position must be between 0 and 7'', ds)
      else if \<not> 0 < frequency
      then (Failure 1 ''frequency must be greater than 0'', ds)
      else
        let zones = start_stop_zones start_position end_position;
            force_pair = (ucast ((strength_a AND 0x07) OR push_bit 3 (strength_b AND 0x07)) :: u32)
        in command_trigger ds trigger DS_TRIGGER_EFFECT_MACHINE
             (ucast (drop_bit 0 zones AND 0xff))
             (ucast (drop_bit 8 zones AND 0xff))
             (ucast (drop_bit 0 force_pair AND 0xff))
             frequency
             period
             0 0 0 0)"

definition command_trigger_vibration ::
  "dualsense \<Rightarrow> string \<Rightarrow> u8 \<Rightarrow> u8 \<Rightarrow> u8 \<Rightarrow> result \<times> dualsense" where
  "command_trigger_vibration ds trigger position amplitude frequency =
     (if 9 < position then (Failure 1 ''position must be between 0 and 9'', ds)
      else if 8 < amplitude \<or> \<not> 0 < amplitude
      then (Failure 1 ''amplitude must be between 1 and 8'', ds)
      else if \<not> 0 < frequency
      then (Failure 1 ''frequency must be greater than 0'', ds)
      else
        let strength_array = fill_loop (unat position) amplitude (replicate 10 0)
        in trigger_bitpacking_array ds trigger DS_TRIGGER_EFFECT_VIBRATION strength_array
             frequency)"

definition command_trigger_feedback_raw ::
  "dualsense \<Rightarrow> string \<Rightarrow> u8 list \<Rightarrow> result \<times> dualsense" where
  "command_trigger_feedback_raw ds trigger strength =
     trigger_bitpacking_array ds trigger DS_TRIGGER_EFFECT_FEEDBACK strength 0"

definition command_trigger_vibration_raw ::
  "dualsense \<Rightarrow> string \<Rightarrow> u8 list \<Rightarrow> u8 \<Rightarrow> result \<times> dualsense" where
  "command_trigger_vibration_raw ds trigger strength frequency =
     trigger_bitpacking_array ds trigger DS_TRIGGER_EFFECT_VIBRATION strength frequency"

section \<open>The other commands that build an output report\<close>

definition command_lightbar1 :: "dualsense \<Rightarrow> string \<Rightarrow> result \<times> dualsense" where
  "command_lightbar1 ds state =
     (let (ds, rp) = dualsense_init_output_report ds;
          rp = rp_common_update
                 (\<lambda>c. c\<lparr>valid_flag2 := DS_OUTPUT_VALID_FLAG2_LIGHTBAR_SETUP_CONTROL_ENABLE\<rparr>) rp
      in if state = ''on'' then
           let rp = rp_common_update
                      (\<lambda>c. c\<lparr>lightbar_setup := DS_OUTPUT_LIGHTBAR_SETUP_LIGHT_ON\<rparr>) rp
           in (Success, dualsense_send_output_report ds rp)
         else if state = ''off'' then
           let rp = rp_common_update
                      (\<lambda>c. c\<lparr>lightbar_setup := DS_OUTPUT_LIGHTBAR_SETUP_LIGHT_OUT\<rparr>) rp
           in (Success, dualsense_send_output_report ds rp)
         else (Failure 1 ''Invalid state'', ds))"

text \<open>
  The products \<^verbatim>\<open>brightness * red\<close> and \<^verbatim>\<open>volume * 0x7f\<close> are computed in \<^verbatim>\<open>int\<close> and
  only the quotient is stored into a byte.
\<close>

definition command_lightbar3 ::
  "dualsense \<Rightarrow> u8 \<Rightarrow> u8 \<Rightarrow> u8 \<Rightarrow> u8 \<Rightarrow> result \<times> dualsense" where
  "command_lightbar3 ds red green blue brightness =
     (let (ds, rp) = dualsense_init_output_report ds;
          max_brightness = (255 :: nat);
          rp = rp_common_update
                 (\<lambda>c. c\<lparr>valid_flag1 := DS_OUTPUT_VALID_FLAG1_LIGHTBAR_CONTROL_ENABLE\<rparr>) rp;
          rp = rp_common_update
                 (\<lambda>c. c\<lparr>lightbar_red := of_nat (unat brightness * unat red div max_brightness)\<rparr>)
                 rp;
          rp = rp_common_update
                 (\<lambda>c. c\<lparr>lightbar_green :=
                           of_nat (unat brightness * unat green div max_brightness)\<rparr>) rp;
          rp = rp_common_update
                 (\<lambda>c. c\<lparr>lightbar_blue := of_nat (unat brightness * unat blue div max_brightness)\<rparr>)
                 rp
      in (Success, dualsense_send_output_report ds rp))"

definition player_ids :: "u8 list" where
  "player_ids =
     [0,
      BIT 2,
      BIT 3 OR BIT 1,
      BIT 4 OR BIT 2 OR BIT 0,
      BIT 4 OR BIT 3 OR BIT 1 OR BIT 0,
      BIT 4 OR BIT 3 OR BIT 2 OR BIT 1 OR BIT 0]"

definition command_player_leds :: "dualsense \<Rightarrow> u8 \<Rightarrow> result \<times> dualsense" where
  "command_player_leds ds number =
     (if 5 < number then (Failure 1 ''Invalid player number'', ds)
      else
        let (ds, rp) = dualsense_init_output_report ds;
            rp = rp_common_update
                   (\<lambda>c. c\<lparr>valid_flag1 :=
                             DS_OUTPUT_VALID_FLAG1_PLAYER_INDICATOR_CONTROL_ENABLE\<rparr>) rp;
            rp = rp_common_update (\<lambda>c. c\<lparr>player_leds := player_ids ! unat number\<rparr>) rp
        in (Success, dualsense_send_output_report ds rp))"

definition command_microphone :: "dualsense \<Rightarrow> string \<Rightarrow> result \<times> dualsense" where
  "command_microphone ds state =
     (let (ds, rp) = dualsense_init_output_report ds;
          rp = rp_common_update
                 (\<lambda>c. c\<lparr>valid_flag1 := DS_OUTPUT_VALID_FLAG1_POWER_SAVE_CONTROL_ENABLE\<rparr>) rp
      in if state = ''on'' then
           let rp = rp_common_update
                      (\<lambda>c. c\<lparr>power_save_control :=
                                power_save_control c AND
                                NOT DS_OUTPUT_POWER_SAVE_CONTROL_MIC_MUTE\<rparr>) rp
           in (Success, dualsense_send_output_report ds rp)
         else if state = ''off'' then
           let rp = rp_common_update
                      (\<lambda>c. c\<lparr>power_save_control :=
                                power_save_control c OR DS_OUTPUT_POWER_SAVE_CONTROL_MIC_MUTE\<rparr>)
                      rp
           in (Success, dualsense_send_output_report ds rp)
         else (Failure 1 ''Invalid state'', ds))"

definition command_microphone_led :: "dualsense \<Rightarrow> string \<Rightarrow> result \<times> dualsense" where
  "command_microphone_led ds state =
     (let (ds, rp) = dualsense_init_output_report ds;
          rp = rp_common_update
                 (\<lambda>c. c\<lparr>valid_flag1 := DS_OUTPUT_VALID_FLAG1_MIC_MUTE_LED_CONTROL_ENABLE\<rparr>) rp
      in if state = ''on'' then
           let rp = rp_common_update (\<lambda>c. c\<lparr>mute_button_led := 1\<rparr>) rp
           in (Success, dualsense_send_output_report ds rp)
         else if state = ''off'' then
           let rp = rp_common_update (\<lambda>c. c\<lparr>mute_button_led := 0\<rparr>) rp
           in (Success, dualsense_send_output_report ds rp)
         else (Failure 1 ''Invalid state'', ds))"

definition command_speaker :: "dualsense \<Rightarrow> string \<Rightarrow> result \<times> dualsense" where
  "command_speaker ds state =
     (let (ds, rp) = dualsense_init_output_report ds;
          rp = rp_common_update
                 (\<lambda>c. c\<lparr>valid_flag0 := DS_OUTPUT_VALID_FLAG0_AUDIO_CONTROL_ENABLE\<rparr>) rp
      in if state = ''internal'' then
           let rp = rp_common_update
                      (\<lambda>c. c\<lparr>audio_flags := push_bit DS_OUTPUT_AUDIO_OUTPUT_PATH_SHIFT 3\<rparr>) rp
           in (Success, dualsense_send_output_report ds rp)
         else if state = ''headphone'' then
           let rp = rp_common_update (\<lambda>c. c\<lparr>audio_flags := 0\<rparr>) rp
           in (Success, dualsense_send_output_report ds rp)
         else if state = ''monoheadphone'' then
           let rp = rp_common_update
                      (\<lambda>c. c\<lparr>audio_flags := push_bit DS_OUTPUT_AUDIO_OUTPUT_PATH_SHIFT 1\<rparr>) rp
           in (Success, dualsense_send_output_report ds rp)
         else if state = ''both'' then
           let rp = rp_common_update
                      (\<lambda>c. c\<lparr>audio_flags := push_bit DS_OUTPUT_AUDIO_OUTPUT_PATH_SHIFT 2\<rparr>) rp
           in (Success, dualsense_send_output_report ds rp)
         else (Failure 1 ''Invalid state'', ds))"

definition command_volume :: "dualsense \<Rightarrow> u8 \<Rightarrow> result \<times> dualsense" where
  "command_volume ds volume =
     (let (ds, rp) = dualsense_init_output_report ds;
          max_volume = (255 :: nat);
          rp = rp_common_update
                 (\<lambda>c. c\<lparr>valid_flag0 := DS_OUTPUT_VALID_FLAG0_HEADPHONE_VOLUME_ENABLE\<rparr>) rp;
          rp = rp_common_update
                 (\<lambda>c. c\<lparr>headphone_audio_volume := of_nat (unat volume * 0x7f div max_volume)\<rparr>)
                 rp;
          rp = rp_common_update
                 (\<lambda>c. c\<lparr>valid_flag0 :=
                           valid_flag0 c OR DS_OUTPUT_VALID_FLAG0_SPEAKER_VOLUME_ENABLE\<rparr>) rp;
          rp = rp_common_update
                 (\<lambda>c. c\<lparr>speaker_audio_volume := of_nat (unat volume * 0x64 div max_volume)\<rparr>) rp
      in (Success, dualsense_send_output_report ds rp))"

definition command_vibration_attenuation ::
  "dualsense \<Rightarrow> u8 \<Rightarrow> u8 \<Rightarrow> result \<times> dualsense" where
  "command_vibration_attenuation ds rumble_attenuation trigger_attenuation =
     (let (ds, rp) = dualsense_init_output_report ds;
          rp = rp_common_update
                 (\<lambda>c. c\<lparr>valid_flag1 := DS_OUTPUT_VALID_FLAG1_VIBRATION_ATTENUATION_ENABLE\<rparr>) rp;
          rp = rp_common_update
                 (\<lambda>c. c\<lparr>reduce_motor_power :=
                           (rumble_attenuation AND 0x07) OR
                           push_bit 4 (trigger_attenuation AND 0x07)\<rparr>) rp
      in (Success, dualsense_send_output_report ds rp))"

section \<open>The battery query\<close>

text \<open>
  \<^verbatim>\<open>status\<close> lies at offset 52 of the packed \<^verbatim>\<open>struct dualsense_input_report\<close>: after
  \<^verbatim>\<open>x, y, rx, ry, z, rz\<close> (6 bytes), \<^verbatim>\<open>seq_number\<close> (1), \<^verbatim>\<open>buttons[4]\<close>, \<^verbatim>\<open>reserved[4]\<close>,
  \<^verbatim>\<open>gyro[3]\<close> and \<^verbatim>\<open>accel[3]\<close> (6 bytes each), \<^verbatim>\<open>sensor_timestamp\<close> (4), \<^verbatim>\<open>reserved2\<close> (1),
  \<^verbatim>\<open>points[2]\<close> (4 bytes each) and \<^verbatim>\<open>reserved3[12]\<close>.
\<close>

definition input_report_status :: "u8 list \<Rightarrow> u8" where
  "input_report_status ds_report = ds_report ! (6 + 1 + 4 + 4 + 6 + 6 + 4 + 1 + 2 * 4 + 12)"

text \<open>
  \<^verbatim>\<open>command_battery\<close>. What \<^verbatim>\<open>hid_read_timeout\<close> did is an input: its return value \<open>res\<close>
  and the buffer \<^verbatim>\<open>data[DS_INPUT_REPORT_BT_SIZE]\<close> as the call left it. The second
  component of the outcome is the pair printed on \<^verbatim>\<open>stdout\<close> by
  \<^verbatim>\<open>printf("%d %s\n", (int)battery_capacity, battery_status)\<close>.
\<close>

definition command_battery ::
  "dualsense \<Rightarrow> int \<Rightarrow> u8 list \<Rightarrow> result \<times> (int \<times> string) option" where
  "command_battery ds res data =
     (if res \<le> 0 then
        (if res = 0 then (Failure 2 ''Timeout waiting for report'', None)
         else (Failure 2 ''Failed to read report'', None))
      else
        case (if \<not> bt ds \<and> data ! 0 = DS_INPUT_REPORT_USB \<and> res = DS_INPUT_REPORT_USB_SIZE
              then Some (drop 1 data)
              else if bt ds \<and> data ! 0 = DS_INPUT_REPORT_BT \<and> res = DS_INPUT_REPORT_BT_SIZE
              then Some (drop 2 data)
              else None) of
          None \<Rightarrow> (Failure 3 ''Unhandled report ID'', None)
        | Some ds_report \<Rightarrow>
            let battery_data = input_report_status ds_report AND DS_STATUS_BATTERY_CAPACITY;
                charging_status =
                  drop_bit DS_STATUS_CHARGING_SHIFT
                    (input_report_status ds_report AND DS_STATUS_CHARGING);
                (battery_capacity, battery_status) =
                  (if charging_status = 0x0
                   then (of_nat (min (unat battery_data * 10 + 5) 100), ''discharging'')
                   else if charging_status = 0x1
                   then (of_nat (min (unat battery_data * 10 + 5) 100), ''charging'')
                   else if charging_status = 0x2
                   then (100, ''full'')
                   else if charging_status = 0xa \<or> charging_status = 0xb
                   then (0, ''not-charging'')
                   else (0, ''unknown''))
            in (Success, Some (uint (battery_capacity :: u8), battery_status)))"

section \<open>The dispatch of \<^verbatim>\<open>main\<close>\<close>

text \<open>
  The \<^verbatim>\<open>trigger\<close> branch of \<^verbatim>\<open>main\<close>, once \<^verbatim>\<open>argv\<close> has been counted and each argument
  converted by \<^verbatim>\<open>atoi\<close> and stored into a byte: one constructor per effect name, the last
  one for a numeric mode with its nine raw parameters.
\<close>

datatype trigger_effect =
    Off
  | Feedback u8 u8
  | Weapon u8 u8 u8
  | Bow u8 u8 u8 u8
  | Galloping u8 u8 u8 u8 u8
  | Machine u8 u8 u8 u8 u8 u8
  | Vibration u8 u8 u8
  | Feedback_raw u8 u8 u8 u8 u8 u8 u8 u8 u8 u8
  | Vibration_raw u8 u8 u8 u8 u8 u8 u8 u8 u8 u8 u8
  | Mode u8 u8 u8 u8 u8 u8 u8 u8 u8 u8

fun trigger_effect_dispatch :: "dualsense \<Rightarrow> string \<Rightarrow> trigger_effect \<Rightarrow> result \<times> dualsense" where
  "trigger_effect_dispatch ds trigger Off = command_trigger_off ds trigger"
| "trigger_effect_dispatch ds trigger (Feedback position strength) =
     command_trigger_feedback ds trigger position strength"
| "trigger_effect_dispatch ds trigger (Weapon start_position end_position strength) =
     command_trigger_weapon ds trigger start_position end_position strength"
| "trigger_effect_dispatch ds trigger (Bow start_position end_position strength snap_force) =
     command_trigger_bow ds trigger start_position end_position strength snap_force"
| "trigger_effect_dispatch ds trigger
     (Galloping start_position end_position first_foot second_foot frequency) =
     command_trigger_galloping ds trigger start_position end_position first_foot second_foot
       frequency"
| "trigger_effect_dispatch ds trigger
     (Machine start_position end_position strength_a strength_b frequency period) =
     command_trigger_machine ds trigger start_position end_position strength_a strength_b
       frequency period"
| "trigger_effect_dispatch ds trigger (Vibration position amplitude frequency) =
     command_trigger_vibration ds trigger position amplitude frequency"
| "trigger_effect_dispatch ds trigger (Feedback_raw s0 s1 s2 s3 s4 s5 s6 s7 s8 s9) =
     command_trigger_feedback_raw ds trigger [s0, s1, s2, s3, s4, s5, s6, s7, s8, s9]"
| "trigger_effect_dispatch ds trigger (Vibration_raw s0 s1 s2 s3 s4 s5 s6 s7 s8 s9 frequency) =
     command_trigger_vibration_raw ds trigger [s0, s1, s2, s3, s4, s5, s6, s7, s8, s9]
       frequency"
| "trigger_effect_dispatch ds trigger
     (Mode mode param1 param2 param3 param4 param5 param6 param7 param8 param9) =
     command_trigger ds trigger mode param1 param2 param3 param4 param5 param6 param7 param8
       param9"

definition main_trigger :: "dualsense \<Rightarrow> string \<Rightarrow> trigger_effect \<Rightarrow> result \<times> dualsense" where
  \<open>main_trigger ds trigger effect =
     (if trigger \<noteq> ''left'' \<and> trigger \<noteq> ''right'' \<and> trigger \<noteq> ''both''
      then (Failure 2
              ''Invalid argument: TRIGGER must be either "left", "right" or "both"'', ds)
      else trigger_effect_dispatch ds trigger effect)\<close>

text \<open>
  The branches of \<^verbatim>\<open>main\<close> that build an output report, again after the arguments have
  been counted and converted. The volume and the two attenuations are compared as the
  \<^verbatim>\<open>int\<close> that \<^verbatim>\<open>atoi\<close> returned and only then stored into a byte.
\<close>

datatype command =
    Lightbar1 string
  | Lightbar3 u8 u8 u8 u8
  | Player_leds u8
  | Microphone string
  | Microphone_led string
  | Speaker string
  | Volume int
  | Attenuation int int
  | Trigger string trigger_effect

fun main_command :: "dualsense \<Rightarrow> command \<Rightarrow> result \<times> dualsense" where
  "main_command ds (Lightbar1 state) = command_lightbar1 ds state"
| "main_command ds (Lightbar3 red green blue brightness) =
     command_lightbar3 ds red green blue brightness"
| "main_command ds (Player_leds number) = command_player_leds ds number"
| "main_command ds (Microphone state) = command_microphone ds state"
| "main_command ds (Microphone_led state) = command_microphone_led ds state"
| "main_command ds (Speaker state) = command_speaker ds state"
| "main_command ds (Volume volume) =
     (if 255 < volume then (Failure 1 ''Invalid volume'', ds)
      else command_volume ds (word_of_int volume))"
| "main_command ds (Attenuation rumble trigger) =
     (if 7 < rumble \<or> 7 < trigger then (Failure 1 ''Invalid attenuation'', ds)
      else command_vibration_attenuation ds (word_of_int rumble) (word_of_int trigger))"
| "main_command ds (Trigger trigger effect) = main_trigger ds trigger effect"

section \<open>Reading a report off the wire\<close>

text \<open>
  What a receiver finds in the bytes handed to \<^verbatim>\<open>hid_write\<close>. The common block follows
  the three header bytes of a Bluetooth report and the single header byte of a USB
  report, and is 47 bytes long; inside it the members lie at the offsets of the packed
  structure: \<^verbatim>\<open>valid_flag0\<close> at 0, \<^verbatim>\<open>right_trigger_motor_mode\<close> at 10,
  \<^verbatim>\<open>right_trigger_param\<close> at 11 to 20, \<^verbatim>\<open>left_trigger_motor_mode\<close> at 21 and
  \<^verbatim>\<open>left_trigger_param\<close> at 22 to 31.
\<close>

definition wire_common :: "bool \<Rightarrow> u8 list \<Rightarrow> u8 list" where
  "wire_common is_bt r = take 47 (drop (if is_bt then 3 else 1) r)"

definition wire_valid_flag0 :: "u8 list \<Rightarrow> u8" where
  "wire_valid_flag0 c = c ! 0"

definition wire_right_trigger_motor_mode :: "u8 list \<Rightarrow> u8" where
  "wire_right_trigger_motor_mode c = c ! 10"

definition wire_right_trigger_param :: "u8 list \<Rightarrow> u8 list" where
  "wire_right_trigger_param c = take 10 (drop 11 c)"

definition wire_left_trigger_motor_mode :: "u8 list \<Rightarrow> u8" where
  "wire_left_trigger_motor_mode c = c ! 21"

definition wire_left_trigger_param :: "u8 list \<Rightarrow> u8 list" where
  "wire_left_trigger_param c = take 10 (drop 22 c)"

text \<open>The sequence number of a Bluetooth report: the high nibble of its second byte.\<close>

definition seq_nibble :: "u8 list \<Rightarrow> u8" where
  "seq_nibble r = drop_bit 4 (r ! 1)"

text \<open>The four bytes of a little-endian \<^verbatim>\<open>uint32_t\<close> read back.\<close>

definition read_le32 :: "u8 list \<Rightarrow> u32" where
  "read_le32 bs =
     ucast (bs ! 0) OR push_bit 8 (ucast (bs ! 1)) OR push_bit 16 (ucast (bs ! 2)) OR
     push_bit 24 (ucast (bs ! 3))"

text \<open>
  The parameters of a bit-packed effect read back: the zone bitmap from the first two
  parameter bytes, the strength accumulator from the next four, the frequency from the
  ninth.
\<close>

definition param_active_zones :: "u8 list \<Rightarrow> u16" where
  "param_active_zones ps = ucast (ps ! 0) OR push_bit 8 (ucast (ps ! 1))"

definition param_strength_zones :: "u8 list \<Rightarrow> u32" where
  "param_strength_zones ps = read_le32 (take 4 (drop 2 ps))"

definition param_frequency :: "u8 list \<Rightarrow> u8" where
  "param_frequency ps = ps ! 8"

text \<open>The reports a command handed to \<^verbatim>\<open>hid_write\<close>: what \<open>dev\<close> gained from \<open>ds\<close> to \<open>ds'\<close>.\<close>

definition new_reports :: "dualsense \<Rightarrow> dualsense \<Rightarrow> u8 list list" where
  "new_reports ds ds' = drop (length (dev ds)) (dev ds')"

text \<open>
  A session: commands run one after the other on the same \<^verbatim>\<open>struct dualsense\<close>;
  \<open>all_sent\<close> says that each of them returned 0, \<open>every_built_sent\<close> that each of
  them returned 0 or left the structure as it found it, which on Bluetooth is to say
  that it built no report.
\<close>

fun session :: "dualsense \<Rightarrow> command list \<Rightarrow> dualsense" where
  "session ds [] = ds"
| "session ds (c # cs) = session (snd (main_command ds c)) cs"

fun all_sent :: "dualsense \<Rightarrow> command list \<Rightarrow> bool" where
  "all_sent ds [] = True"
| "all_sent ds (c # cs) =
     (fst (main_command ds c) = Success \<and> all_sent (snd (main_command ds c)) cs)"

fun every_built_sent :: "dualsense \<Rightarrow> command list \<Rightarrow> bool" where
  "every_built_sent ds [] = True"
| "every_built_sent ds (c # cs) =
     ((fst (main_command ds c) = Success \<or> snd (main_command ds c) = ds) \<and>
      every_built_sent (snd (main_command ds c)) cs)"

section \<open>Auxiliary notions for the proofs\<close>

text \<open>The arrays of a common block have the lengths of their declarations.\<close>

definition wf_common :: "dualsense_output_report_common \<Rightarrow> bool" where
  "wf_common c \<longleftrightarrow>
     length (right_trigger_param c) = 10 \<and> length (left_trigger_param c) = 10 \<and>
     length (reserved2 c) = 4 \<and> length (reserved3 c) = 2"

text \<open>
  The report that \<^verbatim>\<open>dualsense_init_output_report\<close> hands out on session \<open>ds\<close>, once its
  common block has become \<open>c\<close>, and the session it leaves behind.
\<close>

definition report_of ::
  "dualsense \<Rightarrow> dualsense_output_report_common \<Rightarrow> dualsense_output_report" where
  "report_of ds c =
     (if bt ds then
        \<lparr>rp_len = sizeof_bt,
         rp_bt = Some \<lparr>bt_report_id = DS_OUTPUT_REPORT_BT, seq_tag = push_bit 4 (output_seq ds),
                       tag = DS_OUTPUT_TAG, bt_common = c, bt_reserved = replicate 24 0,
                       crc32 = 0\<rparr>,
         rp_usb = None\<rparr>
      else
        \<lparr>rp_len = sizeof_usb, rp_bt = None,
         rp_usb = Some \<lparr>usb_report_id = DS_OUTPUT_REPORT_USB, usb_common = c,
                        usb_reserved = replicate 15 0\<rparr>\<rparr>)"

definition next_seq :: "dualsense \<Rightarrow> dualsense" where
  "next_seq ds =
     (if bt ds
      then ds\<lparr>output_seq := (if output_seq ds + 1 = 16 then 0 else output_seq ds + 1)\<rparr>
      else ds)"

text \<open>The bytes that reach the device for such a report.\<close>

definition signed_part :: "dualsense \<Rightarrow> dualsense_output_report_common \<Rightarrow> u8 list" where
  "signed_part ds c =
     [DS_OUTPUT_REPORT_BT, push_bit 4 (output_seq ds), DS_OUTPUT_TAG] @ common_bytes c @
     replicate 24 0"

definition wire :: "dualsense \<Rightarrow> dualsense_output_report_common \<Rightarrow> u8 list" where
  "wire ds c =
     (if bt ds then
        signed_part ds c @
        le32 (NOT (crc32_le (crc32_le 0xFFFFFFFF [PS_OUTPUT_CRC32_SEED]) (signed_part ds c)))
      else [DS_OUTPUT_REPORT_USB] @ common_bytes c @ replicate 15 0)"

text \<open>The common block that \<^verbatim>\<open>command_trigger\<close> builds.\<close>

definition trigger_enable :: "string \<Rightarrow> u8" where
  "trigger_enable trigger =
     (if trigger = ''right'' \<or> trigger = ''both''
      then DS_OUTPUT_VALID_FLAG0_RIGHT_TRIGGER_MOTOR_ENABLE else 0) OR
     (if trigger = ''left'' \<or> trigger = ''both''
      then DS_OUTPUT_VALID_FLAG0_LEFT_TRIGGER_MOTOR_ENABLE else 0)"

definition trigger_common ::
  "string \<Rightarrow> u8 \<Rightarrow> u8 list \<Rightarrow> dualsense_output_report_common" where
  "trigger_common trigger mode params =
     zero_common\<lparr>valid_flag0 := trigger_enable trigger,
                 right_trigger_motor_mode := mode, right_trigger_param := params @ [0],
                 left_trigger_motor_mode := mode, left_trigger_param := params @ [0]\<rparr>"

text \<open>
  The three ways a command ends: it fails before a report is built, it fails after the
  report is built and before it is sent, or it sends one report.
\<close>

definition outcome_ok :: "dualsense \<Rightarrow> result \<times> dualsense \<Rightarrow> bool" where
  "outcome_ok ds out \<longleftrightarrow>
     (\<exists>n m. out = (Failure n m, ds)) \<or> (\<exists>n m. out = (Failure n m, next_seq ds)) \<or>
     (\<exists>c. wf_common c \<and> out = (Success, (next_seq ds)\<lparr>dev := dev ds @ [wire ds c]\<rparr>))"

text \<open>
  A trigger effect ends in one of two ways: its validation fails and the session is
  untouched, or it is one call of \<^verbatim>\<open>command_trigger\<close>.
\<close>

definition trigger_shape :: "dualsense \<Rightarrow> string \<Rightarrow> result \<times> dualsense \<Rightarrow> bool" where
  "trigger_shape ds trigger out \<longleftrightarrow>
     (\<exists>n m. out = (Failure n m, ds)) \<or>
     (\<exists>mode p1 p2 p3 p4 p5 p6 p7 p8 p9.
        out = command_trigger ds trigger mode p1 p2 p3 p4 p5 p6 p7 p8 p9)"

section \<open>The documented parameter ranges\<close>

text \<open>
  The ranges of the specification's table of trigger effects, one equation per effect,
  to be compared with what the guards of the commands accept. The effect without
  parameters and the numeric mode have no documented range.
\<close>

fun documented_range :: "trigger_effect \<Rightarrow> bool" where
  "documented_range Off = True"
| "documented_range (Feedback position strength) =
     (unat position \<le> 9 \<and> 1 \<le> unat strength \<and> unat strength \<le> 8)"
| "documented_range (Weapon start_position end_position strength) =
     (2 \<le> unat start_position \<and> unat start_position \<le> 7 \<and>
      unat start_position + 1 \<le> unat end_position \<and> unat end_position \<le> 8 \<and>
      1 \<le> unat strength \<and> unat strength \<le> 8)"
| "documented_range (Bow start_position end_position strength snap_force) =
     (unat start_position \<le> 8 \<and>
      unat start_position + 1 \<le> unat end_position \<and> unat end_position \<le> 8 \<and>
      1 \<le> unat strength \<and> unat strength \<le> 8 \<and>
      1 \<le> unat snap_force \<and> unat snap_force \<le> 8)"
| "documented_range (Galloping start_position end_position first_foot second_foot frequency) =
     (unat start_position \<le> 8 \<and>
      unat start_position + 1 \<le> unat end_position \<and> unat end_position \<le> 9 \<and>
      unat first_foot \<le> 6 \<and>
      unat first_foot + 1 \<le> unat second_foot \<and> unat second_foot \<le> 7 \<and>
      0 < unat frequency)"
| "documented_range (Machine start_position end_position strength_a strength_b frequency period) =
     (1 \<le> unat start_position \<and> unat start_position \<le> 8 \<and>
      unat start_position + 1 \<le> unat end_position \<and> unat end_position \<le> 9 \<and>
      unat strength_a \<le> 7 \<and> unat strength_b \<le> 7 \<and> 0 < unat frequency)"
| "documented_range (Vibration position amplitude frequency) =
     (unat position \<le> 9 \<and> 1 \<le> unat amplitude \<and> unat amplitude \<le> 8 \<and>
      0 < unat frequency)"
| "documented_range (Feedback_raw s0 s1 s2 s3 s4 s5 s6 s7 s8 s9) =
     list_all (\<lambda>s. unat s \<le> 8) [s0, s1, s2, s3, s4, s5, s6, s7, s8, s9]"
| "documented_range (Vibration_raw s0 s1 s2 s3 s4 s5 s6 s7 s8 s9 frequency) =
     (list_all (\<lambda>s. unat s \<le> 8) [s0, s1, s2, s3, s4, s5, s6, s7, s8, s9] \<and>
      0 < unat frequency)"
| "documented_range (Mode mode param1 param2 param3 param4 param5 param6 param7 param8 param9) =
     True"

section \<open>Auxiliary facts\<close>

text \<open>
  The loops and the checksum are unfolded by hand, one step at a time, where a proof needs it.
\<close>

declare crc32_le.simps [simp del] crc32_bits.simps [simp del]

declare bitpacking_loop.simps [simp del] fill_loop.simps [simp del]

subsection \<open>Bytes and words\<close>

text \<open>
  Facts about the byte and bit operations the commands use.
\<close>

lemma replicate_10: "replicate 10 x = [x, x, x, x, x, x, x, x, x, x]"
  by (simp add: numeral_eq_Suc)

lemma take_signed:
  "length ys = 4 \<Longrightarrow> take (length (xs @ ys) - 4) (xs @ ys) = xs"
  by simp

lemma length_le32 [simp]: "length (le32 w) = 4"
  by (simp add: le32_def)

lemma read_le32_le32: "read_le32 (le32 w) = w"
  unfolding read_le32_def le32_def
  apply (rule bit_word_eqI)
  apply (auto simp add: bit_simps)
  subgoal for n by (cases "24 \<le> n") simp_all
  done

lemma and_ff: "x AND 0xff = take_bit 8 (x :: 'a::len word)"
  by (simp add: take_bit_eq_mask mask_eq_exp_minus_1)

lemma u16_bytes:
  "ucast (ucast (az AND 0xff) :: u8) OR push_bit 8 (ucast (ucast (drop_bit 8 az AND 0xff) :: u8)) =
   (az :: u16)"
  unfolding and_ff
  apply (rule bit_word_eqI)
  apply (auto simp add: bit_simps)
  done

lemma u32_bytes:
  "read_le32 [ucast (sz AND 0xff), ucast (drop_bit 8 sz AND 0xff),
     ucast (drop_bit 16 sz AND 0xff), ucast (drop_bit 24 sz AND 0xff)] = sz"
  unfolding and_ff read_le32_def
  apply (rule bit_word_eqI)
  apply (auto simp add: bit_simps)
  subgoal for n by (cases "24 \<le> n") simp_all
  done

lemma byte_of_u32: "ucast ((ucast (x :: u8) :: u32) AND 0xff) = x"
  unfolding and_ff by (rule bit_word_eqI) (auto simp add: bit_simps)

lemma charging_code: "drop_bit 4 (st AND 0xF0) = drop_bit 4 st AND (0xF :: u8)"
  by (rule bit_word_eqI) (auto simp add: bit_simps)

lemma uint_capacity: "uint (word_of_nat (min n 100) :: u8) = int (min n 100)"
  by (simp add: unsigned_of_nat take_bit_nat_eq_self)

lemma small_strength:
  assumes "1 \<le> strength" and "strength \<le> 8"
  shows "take_bit 3 (strength - 1) = strength - (1 :: u8)"
proof -
  have "unat (strength - 1) = unat strength - 1"
    using assms(1) by (simp add: unat_sub)
  moreover have "unat strength \<le> 8"
    using assms(2) by (simp add: word_le_nat_alt)
  ultimately have "unat (strength - 1) < 2 ^ 3" by simp
  then show ?thesis
    by (simp add: word_unat_eq_iff unsigned_take_bit_eq take_bit_nat_eq_self)
qed

lemma field_index: "3 * i \<le> n \<and> n - 3 * i < 3 \<longleftrightarrow> n div 3 = (i::nat)"
  by arith

lemma nibble_roundtrip:
  assumes "unat w < 16"
  shows "drop_bit 4 (push_bit 4 w) = (w :: u8)"
proof -
  have "unat w * 16 < 256" using assms by simp
  then have "(unat w * 16 mod 256) div 16 = unat w" by simp
  then show ?thesis
    by (simp add: word_unat_eq_iff drop_bit_eq_div push_bit_eq_mult unat_div unat_word_ariths)
qed

lemma unat_of_nat_small:
  assumes "n \<le> 16"
  shows "unat (of_nat n :: u8) = n"
proof -
  have "n < 2 ^ 8" using assms by simp
  then have "take_bit 8 n = n" by (rule take_bit_nat_eq_self)
  then show ?thesis by (simp add: unsigned_of_nat)
qed

lemma of_nat_eq_16:
  assumes "n \<le> 16"
  shows "(of_nat n :: u8) = 16 \<longleftrightarrow> n = 16"
proof
  assume "(of_nat n :: u8) = 16"
  then have "unat (of_nat n :: u8) = unat (16 :: u8)" by (rule arg_cong)
  then show "n = 16" by (simp add: unat_of_nat_small [OF assms])
next
  assume "n = 16"
  then show "(of_nat n :: u8) = 16" by simp
qed

lemma unat_nibble: "unat (of_nat (k mod 16) :: u8) = k mod 16"
  by (rule unat_of_nat_small) simp

subsection \<open>Building and sending a report\<close>

text \<open>
  The report of \<^verbatim>\<open>dualsense_init_output_report\<close> and the bytes that
  \<^verbatim>\<open>dualsense_send_output_report\<close> hands to \<^verbatim>\<open>hid_write\<close>.
\<close>

lemma init_report_of:
  "dualsense_init_output_report ds = (next_seq ds, report_of ds zero_common)"
  by (simp add: dualsense_init_output_report_def report_of_def next_seq_def Let_def
      zero_bt_def zero_usb_def)

lemma fst_init: "fst \<circ> dualsense_init_output_report = next_seq"
  by (simp add: fun_eq_iff init_report_of)

lemma update_report_of [simp]:
  "rp_common_update f (report_of ds c) = report_of ds (f c)"
  by (simp add: rp_common_update_def report_of_def)

lemma dev_next_seq [simp]: "dev (next_seq ds) = dev ds"
  by (simp add: next_seq_def)

lemma bt_next_seq [simp]: "bt (next_seq ds) = bt ds"
  by (simp add: next_seq_def)

lemma length_common_bytes: "wf_common c \<Longrightarrow> length (common_bytes c) = 47"
  by (simp add: wf_common_def common_bytes_def)

lemma length_signed_part: "wf_common c \<Longrightarrow> length (signed_part ds c) = 74"
  by (simp add: signed_part_def length_common_bytes)

lemma bt_bytes_append:
  "bt_bytes b =
     ([bt_report_id b, seq_tag b, tag b] @ common_bytes (bt_common b) @ bt_reserved b) @
     le32 (crc32 b)"
  by (simp add: bt_bytes_def)

lemma bt_bytes_split:
  "bt_bytes b = take (length (bt_bytes b) - 4) (bt_bytes b) @ le32 (crc32 b)"
  unfolding bt_bytes_append by (subst take_signed) simp_all

lemma bt_bytes_crc32_update:
  "bt_bytes (b\<lparr>crc32 := w\<rparr>) = take (length (bt_bytes b) - 4) (bt_bytes b) @ le32 w"
  unfolding bt_bytes_append by (subst take_signed) simp_all

lemma send_signs:
  assumes "unat (rp_len report) = length (rp_data report)"
  shows "(rp_bt report \<noteq> None \<longrightarrow>
           (let sent = last (dev (dualsense_send_output_report ds report));
                n = length sent
            in dev (dualsense_send_output_report ds report) = dev ds @ [sent] \<and>
               n = length (rp_data report) \<and>
               take (n - 4) sent = take (n - 4) (rp_data report) \<and>
               drop (n - 4) sent =
                 le32 (NOT (crc32_le (crc32_le 0xFFFFFFFF [0xA2]) (take (n - 4) sent))) \<and>
               read_le32 (drop (n - 4) sent) =
                 NOT (crc32_le (crc32_le 0xFFFFFFFF [0xA2]) (take (n - 4) sent)))) \<and>
         (rp_bt report = None \<longrightarrow>
            dev (dualsense_send_output_report ds report) = dev ds @ [rp_data report])"
proof (cases "rp_bt report")
  case None
  with assms show ?thesis
    by (simp add: dualsense_send_output_report_def hid_write_def)
next
  case (Some b)
  define X where "X = take (length (bt_bytes b) - 4) (bt_bytes b)"
  define crc where "crc = NOT (crc32_le (crc32_le 0xFFFFFFFF [0xA2]) X)"
  have data: "rp_data report = bt_bytes b"
    using Some by (simp add: rp_data_def)
  have lenX: "length X = length (bt_bytes b) - 4" and len4: "4 \<le> length (bt_bytes b)"
    by (simp_all add: X_def bt_bytes_def)
  have sent: "dev (dualsense_send_output_report ds report) = dev ds @ [X @ le32 crc]"
    using Some assms lenX len4
    by (simp add: dualsense_send_output_report_def hid_write_def Let_def data rp_data_def
        bt_bytes_crc32_update X_def [symmetric] crc_def PS_OUTPUT_CRC32_SEED_def)
  have "bt_bytes b = X @ le32 (crc32 b)"
    unfolding X_def by (rule bt_bytes_split)
  then show ?thesis
    using Some lenX len4
    by (simp add: sent Let_def data crc_def [symmetric] read_le32_le32)
qed

lemma send_report_of:
  assumes "wf_common c"
  shows "dualsense_send_output_report ds' (report_of ds c) = ds'\<lparr>dev := dev ds' @ [wire ds c]\<rparr>"
proof (cases "bt ds")
  case True
  have l: "length (common_bytes c) = 47" using assms by (rule length_common_bytes)
  have "take 74 (bt_bytes \<lparr>bt_report_id = DS_OUTPUT_REPORT_BT, seq_tag = push_bit 4 (output_seq ds),
                       tag = DS_OUTPUT_TAG, bt_common = c, bt_reserved = replicate 24 0,
                       crc32 = w\<rparr>) = signed_part ds c" for w
    by (simp add: bt_bytes_def signed_part_def l)
  with True show ?thesis
    by (simp add: dualsense_send_output_report_def report_of_def wire_def hid_write_def
        rp_data_def sizeof_bt_def Let_def) (simp add: bt_bytes_def signed_part_def l)
next
  case False
  have l: "length (common_bytes c) = 47" using assms by (rule length_common_bytes)
  from False show ?thesis
    by (simp add: dualsense_send_output_report_def report_of_def wire_def hid_write_def
        rp_data_def sizeof_usb_def usb_bytes_def l)
qed

lemma length_wire: "wf_common c \<Longrightarrow> length (wire ds c) = (if bt ds then 78 else 63)"
  by (simp add: wire_def length_signed_part length_common_bytes)

lemma wire_id: "wire ds c ! 0 = (if bt ds then 0x31 else 0x02)"
  by (simp add: wire_def signed_part_def DS_OUTPUT_REPORT_BT_def DS_OUTPUT_REPORT_USB_def)

lemma wire_signed:
  assumes "wf_common c" and "bt ds"
  shows "length (wire ds c) = 78"
    and "drop 74 (wire ds c) =
      le32 (NOT (crc32_le (crc32_le 0xFFFFFFFF [0xA2]) (take 74 (wire ds c))))"
  using assms length_signed_part [OF assms(1), of ds]
  by (simp_all add: wire_def PS_OUTPUT_CRC32_SEED_def)

lemma wire_unsigned:
  assumes "wf_common c" and "\<not> bt ds"
  shows "length (wire ds c) = 63" and "drop 48 (wire ds c) = replicate 15 0"
  using assms length_common_bytes [OF assms(1)]
  by (simp_all add: wire_def)

lemma wire_common_wire: "wf_common c \<Longrightarrow> wire_common (bt ds) (wire ds c) = common_bytes c"
  by (simp add: wire_common_def wire_def signed_part_def length_common_bytes)

lemma new_reports_same [simp]: "new_reports ds ds = []"
  by (simp add: new_reports_def)

lemma new_reports_next_seq [simp]: "new_reports ds (next_seq ds) = []"
  by (simp add: new_reports_def)

lemma new_reports_sent [simp]:
  "new_reports ds ((next_seq ds)\<lparr>dev := dev ds @ [r]\<rparr>) = [r]"
  by (simp add: new_reports_def)

subsection \<open>The report of \<^verbatim>\<open>command_trigger\<close>\<close>

text \<open>
  \<^verbatim>\<open>command_trigger\<close> always returns 0 and sends one report, whose common block is
  known byte by byte.
\<close>

lemma wf_trigger_common: "length params = 9 \<Longrightarrow> wf_common (trigger_common trigger mode params)"
  by (simp add: wf_common_def trigger_common_def zero_common_def)

lemma command_trigger_eq:
  "command_trigger ds trigger mode p1 p2 p3 p4 p5 p6 p7 p8 p9 =
     (Success,
      (next_seq ds)\<lparr>dev := dev ds @
         [wire ds (trigger_common trigger mode [p1, p2, p3, p4, p5, p6, p7, p8, p9])]\<rparr>)"
proof -
  have c: "wf_common (trigger_common trigger mode [p1, p2, p3, p4, p5, p6, p7, p8, p9])"
    by (simp add: wf_trigger_common)
  have "command_trigger ds trigger mode p1 p2 p3 p4 p5 p6 p7 p8 p9 =
     (Success, dualsense_send_output_report (next_seq ds)
        (report_of ds (trigger_common trigger mode [p1, p2, p3, p4, p5, p6, p7, p8, p9])))"
    by (simp add: command_trigger_def init_report_of Let_def trigger_common_def
        trigger_enable_def zero_common_def replicate_10)
  then show ?thesis by (simp add: send_report_of [OF c])
qed

lemma command_trigger_result:
  "fst (command_trigger ds trigger mode p1 p2 p3 p4 p5 p6 p7 p8 p9) = Success"
  by (simp add: command_trigger_eq)

lemma common_bytes_trigger:
  "common_bytes (trigger_common trigger mode [p1, p2, p3, p4, p5, p6, p7, p8, p9]) =
     [trigger_enable trigger, 0, 0, 0, 0, 0, 0, 0, 0, 0,
      mode, p1, p2, p3, p4, p5, p6, p7, p8, p9, 0,
      mode, p1, p2, p3, p4, p5, p6, p7, p8, p9, 0,
      0, 0, 0, 0, 0, 0, 0, 0, 0, 0, 0, 0, 0, 0, 0]"
  by (simp add: common_bytes_def trigger_common_def zero_common_def numeral_eq_Suc)

lemma command_trigger_wire:
  "wire_common (bt ds)
     (last (dev (snd (command_trigger ds trigger mode p1 p2 p3 p4 p5 p6 p7 p8 p9)))) =
     [trigger_enable trigger, 0, 0, 0, 0, 0, 0, 0, 0, 0,
      mode, p1, p2, p3, p4, p5, p6, p7, p8, p9, 0,
      mode, p1, p2, p3, p4, p5, p6, p7, p8, p9, 0,
      0, 0, 0, 0, 0, 0, 0, 0, 0, 0, 0, 0, 0, 0, 0]"
  by (simp add: command_trigger_eq wire_common_wire wf_trigger_common common_bytes_trigger)

subsection \<open>How a command ends\<close>

text \<open>
  Every command ends in one of three ways, every trigger effect in one of two.
\<close>

lemma wf_zero_common [simp]: "wf_common zero_common"
  by (simp add: wf_common_def zero_common_def)

lemma wf_common_upd [simp]:
  "wf_common (c\<lparr>valid_flag0 := a\<rparr>) = wf_common c"
  "wf_common (c\<lparr>valid_flag1 := a\<rparr>) = wf_common c"
  "wf_common (c\<lparr>valid_flag2 := a\<rparr>) = wf_common c"
  "wf_common (c\<lparr>lightbar_setup := a\<rparr>) = wf_common c"
  "wf_common (c\<lparr>lightbar_red := a\<rparr>) = wf_common c"
  "wf_common (c\<lparr>lightbar_green := a\<rparr>) = wf_common c"
  "wf_common (c\<lparr>lightbar_blue := a\<rparr>) = wf_common c"
  "wf_common (c\<lparr>player_leds := a\<rparr>) = wf_common c"
  "wf_common (c\<lparr>power_save_control := a\<rparr>) = wf_common c"
  "wf_common (c\<lparr>mute_button_led := a\<rparr>) = wf_common c"
  "wf_common (c\<lparr>audio_flags := a\<rparr>) = wf_common c"
  "wf_common (c\<lparr>headphone_audio_volume := a\<rparr>) = wf_common c"
  "wf_common (c\<lparr>speaker_audio_volume := a\<rparr>) = wf_common c"
  "wf_common (c\<lparr>reduce_motor_power := a\<rparr>) = wf_common c"
  by (simp_all add: wf_common_def)

lemma outcome_okI:
  "wf_common c \<Longrightarrow> outcome_ok ds (Success, dualsense_send_output_report (next_seq ds) (report_of ds c))"
  by (auto simp add: outcome_ok_def send_report_of)

lemma outcome_ok_fail [simp]:
  "outcome_ok ds (Failure n m, ds)" "outcome_ok ds (Failure n m, next_seq ds)"
  by (auto simp add: outcome_ok_def)

lemma outcome_lightbar1: "outcome_ok ds (command_lightbar1 ds state)"
  by (simp add: command_lightbar1_def init_report_of Let_def outcome_okI)

lemma outcome_lightbar3: "outcome_ok ds (command_lightbar3 ds r g b br)"
  by (simp add: command_lightbar3_def init_report_of Let_def outcome_okI)

lemma outcome_player_leds: "outcome_ok ds (command_player_leds ds n)"
  by (simp add: command_player_leds_def init_report_of Let_def outcome_okI)

lemma outcome_microphone: "outcome_ok ds (command_microphone ds state)"
  by (simp add: command_microphone_def init_report_of Let_def outcome_okI)

lemma outcome_microphone_led: "outcome_ok ds (command_microphone_led ds state)"
  by (simp add: command_microphone_led_def init_report_of Let_def outcome_okI)

lemma outcome_speaker: "outcome_ok ds (command_speaker ds state)"
  by (simp add: command_speaker_def init_report_of Let_def outcome_okI)

lemma outcome_volume: "outcome_ok ds (command_volume ds v)"
  by (simp add: command_volume_def init_report_of Let_def outcome_okI)

lemma outcome_attenuation: "outcome_ok ds (command_vibration_attenuation ds r t)"
  by (simp add: command_vibration_attenuation_def init_report_of Let_def outcome_okI)

lemma trigger_shape_fail [simp]: "trigger_shape ds trigger (Failure n m, ds)"
  by (simp add: trigger_shape_def)

lemma trigger_shape_call [simp]:
  "trigger_shape ds trigger (command_trigger ds trigger mode p1 p2 p3 p4 p5 p6 p7 p8 p9)"
  unfolding trigger_shape_def by (rule disjI2, (rule exI)+, rule refl)

lemma outcome_command_trigger:
  "outcome_ok ds (command_trigger ds trigger mode p1 p2 p3 p4 p5 p6 p7 p8 p9)"
  unfolding command_trigger_eq outcome_ok_def
  by (intro disjI2, rule exI [of _ "trigger_common trigger mode [p1, p2, p3, p4, p5, p6, p7, p8, p9]"])
    (simp add: wf_trigger_common)

lemma shape_bitpacking: "trigger_shape ds trigger (trigger_bitpacking_array ds trigger mode s f)"
  by (simp add: trigger_bitpacking_array_def split: option.split prod.split)

lemma shape_dispatch: "trigger_shape ds trigger (trigger_effect_dispatch ds trigger effect)"
  by (cases effect)
    (simp_all add: command_trigger_off_def command_trigger_feedback_def
      command_trigger_weapon_def command_trigger_bow_def command_trigger_galloping_def
      command_trigger_machine_def command_trigger_vibration_def
      command_trigger_feedback_raw_def command_trigger_vibration_raw_def
      shape_bitpacking Let_def)

lemma shape_main_trigger: "trigger_shape ds trigger (main_trigger ds trigger effect)"
  by (simp add: main_trigger_def shape_dispatch)

lemma outcome_trigger: "outcome_ok ds (main_trigger ds trigger effect)"
proof -
  have "outcome_ok ds out" if "trigger_shape ds trigger out" for out
    using that by (auto simp add: trigger_shape_def outcome_command_trigger)
  then show ?thesis
    by (simp add: main_trigger_def shape_dispatch)
qed

lemma outcome_main: "outcome_ok ds (main_command ds c)"
  by (cases c)
    (simp_all add: outcome_lightbar1 outcome_lightbar3 outcome_player_leds outcome_microphone
      outcome_microphone_led outcome_speaker outcome_volume outcome_attenuation outcome_trigger)

lemma main_command_sent:
  assumes "fst (main_command ds c) = Success"
  obtains cm where "wf_common cm"
    and "snd (main_command ds c) = (next_seq ds)\<lparr>dev := dev ds @ [wire ds cm]\<rparr>"
  using outcome_main [of ds c] assms unfolding outcome_ok_def by auto

lemma trigger_shape_reports:
  assumes "trigger_shape ds trigger out" and "r \<in> set (new_reports ds (snd out))"
  shows "\<exists>e mode p1 p2 p3 p4 p5 p6 p7 p8 p9.
     wire_common (bt ds) r =
     [e, 0, 0, 0, 0, 0, 0, 0, 0, 0,
      mode, p1, p2, p3, p4, p5, p6, p7, p8, p9, 0,
      mode, p1, p2, p3, p4, p5, p6, p7, p8, p9, 0,
      0, 0, 0, 0, 0, 0, 0, 0, 0, 0, 0, 0, 0, 0, 0]"
  using assms unfolding trigger_shape_def
proof (elim disjE exE)
  fix n m assume "out = (Failure n m, ds)"
  with assms(2) show ?thesis by simp
next
  fix mode p1 p2 p3 p4 p5 p6 p7 p8 p9
  assume out: "out = command_trigger ds trigger mode p1 p2 p3 p4 p5 p6 p7 p8 p9"
  with assms(2) have "r = last (dev (snd (command_trigger ds trigger mode p1 p2 p3 p4 p5 p6 p7 p8 p9)))"
    by (simp add: command_trigger_eq)
  then show ?thesis
    using command_trigger_wire [of ds trigger mode p1 p2 p3 p4 p5 p6 p7 p8 p9] by blast
qed

lemma trigger_failure_before_io:
  "fst (main_trigger ds trigger effect) \<noteq> Success \<Longrightarrow>
   snd (main_trigger ds trigger effect) = ds"
  using shape_main_trigger [of ds trigger effect] unfolding trigger_shape_def
  by (auto simp add: command_trigger_result)

lemma usb_session_untouched:
  "\<not> bt ds \<Longrightarrow> output_seq (snd (main_command ds c)) = output_seq ds"
  using outcome_main [of ds c] unfolding outcome_ok_def
  by (auto simp add: next_seq_def)

text \<open>
  A command that turns its state argument down does so after the report has been built:
  nothing is sent, and on Bluetooth the sequence counter has advanced.
\<close>

lemma lightbar_state_rejected_after_build:
  "state \<noteq> ''on'' \<Longrightarrow> state \<noteq> ''off'' \<Longrightarrow>
   command_lightbar1 ds state =
     (Failure 1 ''Invalid state'', fst (dualsense_init_output_report ds))"
  by (simp add: command_lightbar1_def init_report_of Let_def)

subsection \<open>The two loops\<close>

text \<open>
  The loop that fills the strength array from a position on, and the loop that packs
  the array into the zone bitmap and the strength accumulator.
\<close>

lemma length_fill_loop [simp]: "length (fill_loop i v xs) = length xs"
  by (induction i v xs rule: fill_loop.induct) (subst fill_loop.simps, simp)

lemma fill_loop_nth:
  "length xs = 10 \<Longrightarrow> k < 10 \<Longrightarrow> fill_loop i v xs ! k = (if i \<le> k then v else xs ! k)"
proof (induction i v xs rule: fill_loop.induct)
  case (1 i strength strength_array)
  show ?case
  proof (cases "i < 10")
    case True
    with 1 show ?thesis
      by (subst fill_loop.simps) (auto simp add: nth_list_update)
  next
    case False
    with 1 show ?thesis
      by (subst fill_loop.simps) simp
  qed
qed

lemma bitpacking_loop_Some:
  "\<forall>k<10. s ! k \<le> 8 \<Longrightarrow> bitpacking_loop i s acc \<noteq> None"
proof (induction i s acc rule: bitpacking_loop.induct)
  case (1 i strength strength_zones active_zones)
  then show ?case
    by (subst bitpacking_loop.simps) (auto simp add: Let_def not_less)
qed

lemma bitpacking_loop_None:
  "i \<le> k \<Longrightarrow> k < 10 \<Longrightarrow> 8 < s ! k \<Longrightarrow> bitpacking_loop i s acc = None"
proof (induction i s acc rule: bitpacking_loop.induct)
  case (1 i strength strength_zones active_zones)
  have "i \<le> k \<longleftrightarrow> k = i \<or> i + 1 \<le> k" by arith
  with 1 show ?case
    by (subst bitpacking_loop.simps) (auto simp add: Let_def)
qed

lemma bitpacking_loop_Some_iff:
  "bitpacking_loop 0 s acc \<noteq> None \<longleftrightarrow> (\<forall>k<10. s ! k \<le> 8)"
proof
  assume ok: "bitpacking_loop 0 s acc \<noteq> None"
  show "\<forall>k<10. s ! k \<le> 8"
  proof (intro allI impI)
    fix k :: nat assume k: "k < 10"
    show "s ! k \<le> 8"
    proof (rule ccontr)
      assume "\<not> s ! k \<le> 8"
      then have "8 < s ! k" by simp
      with k have "bitpacking_loop 0 s acc = None"
        by (intro bitpacking_loop_None [of 0 k]) simp_all
      with ok show False by contradiction
    qed
  qed
next
  assume "\<forall>k<10. s ! k \<le> 8"
  then show "bitpacking_loop 0 s acc \<noteq> None" by (rule bitpacking_loop_Some)
qed

lemma bitpacking_loop_active:
  "bitpacking_loop i s acc = Some acc' \<Longrightarrow>
   bit (snd acc') n \<longleftrightarrow> bit (snd acc) n \<or> (i \<le> n \<and> n < 10 \<and> 0 < s ! n)"
proof (induction i s acc rule: bitpacking_loop.induct)
  case (1 i strength strength_zones active_zones)
  show ?case
  proof (cases "i < 10")
    case False
    with "1.prems" show ?thesis
      by (subst (asm) bitpacking_loop.simps) auto
  next
    case i: True
    show ?thesis
    proof (cases "0 < strength ! i")
      case True
      with i "1.prems" have le: "\<not> 8 < strength ! i"
        by (subst (asm) bitpacking_loop.simps) (auto split: if_splits)
      from i le True "1.prems" have
        "bitpacking_loop (i + 1) strength
           (strength_zones OR push_bit (3 * i) (ucast ((strength ! i - 1) AND 0x07)),
            active_zones OR push_bit i 1) = Some acc'"
        by (subst (asm) bitpacking_loop.simps) (simp add: Let_def)
      moreover have "i \<le> n \<longleftrightarrow> n = i \<or> Suc i \<le> n" by arith
      ultimately show ?thesis
        using "1.IH"(1) [OF i le True refl] i True by (auto simp add: bit_simps)
    next
      case False
      with i "1.prems" have le: "\<not> 8 < strength ! i"
        by (subst (asm) bitpacking_loop.simps) (auto split: if_splits)
      from i le False "1.prems" have
        "bitpacking_loop (i + 1) strength (strength_zones, active_zones) = Some acc'"
        by (subst (asm) bitpacking_loop.simps) (simp add: Let_def)
      moreover have "i \<le> n \<longleftrightarrow> n = i \<or> Suc i \<le> n" by arith
      ultimately show ?thesis
        using "1.IH"(2) [OF i le False] i False by auto
    qed
  qed
qed

lemma bitpacking_loop_strength:
  "bitpacking_loop i s acc = Some acc' \<Longrightarrow>
   bit (fst acc') n \<longleftrightarrow>
     bit (fst acc) n \<or>
     (n < 32 \<and> i \<le> n div 3 \<and> n div 3 < 10 \<and> 0 < s ! (n div 3) \<and>
      bit (s ! (n div 3) - 1) (n mod 3))"
proof (induction i s acc rule: bitpacking_loop.induct)
  case (1 i strength strength_zones active_zones)
  show ?case
  proof (cases "i < 10")
    case False
    with "1.prems" show ?thesis
      by (subst (asm) bitpacking_loop.simps) auto
  next
    case i: True
    have split: "i \<le> n div 3 \<longleftrightarrow> n div 3 = i \<or> Suc i \<le> n div 3" by arith
    show ?thesis
    proof (cases "0 < strength ! i")
      case True
      with i "1.prems" have le: "\<not> 8 < strength ! i"
        by (subst (asm) bitpacking_loop.simps) (auto split: if_splits)
      from i le True "1.prems" have
        "bitpacking_loop (i + 1) strength
           (strength_zones OR push_bit (3 * i) (ucast ((strength ! i - 1) AND 0x07)),
            active_zones OR push_bit i 1) = Some acc'"
        by (subst (asm) bitpacking_loop.simps) (simp add: Let_def)
      note ih = "1.IH"(1) [OF i le True refl this]
      have new: "bit (push_bit (3 * i) (ucast ((strength ! i - 1) AND 0x07) :: u32)) n \<longleftrightarrow>
          n < 32 \<and> n div 3 = i \<and> bit (strength ! i - 1) (n mod 3)"
      proof -
        have m: "(strength ! i - 1) AND 0x07 = take_bit 3 (strength ! i - 1)"
          by (simp add: take_bit_eq_mask mask_eq_exp_minus_1)
        have "bit (push_bit (3 * i) (ucast (take_bit 3 (strength ! i - 1)) :: u32)) n \<longleftrightarrow>
            n < 32 \<and> (3 * i \<le> n \<and> n - 3 * i < 3) \<and> bit (strength ! i - 1) (n - 3 * i)"
          by (auto simp add: bit_simps)
        also have "\<dots> \<longleftrightarrow> n < 32 \<and> n div 3 = i \<and> bit (strength ! i - 1) (n mod 3)"
        proof -
          have "n div 3 = i \<Longrightarrow> n - 3 * i = n mod 3" by arith
          then show ?thesis unfolding field_index by auto
        qed
        finally show ?thesis unfolding m .
      qed
      show ?thesis
        unfolding ih using i True by (auto simp add: bit_or_iff new split)
    next
      case False
      with i "1.prems" have le: "\<not> 8 < strength ! i"
        by (subst (asm) bitpacking_loop.simps) (auto split: if_splits)
      from i le False "1.prems" have
        "bitpacking_loop (i + 1) strength (strength_zones, active_zones) = Some acc'"
        by (subst (asm) bitpacking_loop.simps) (simp add: Let_def)
      then show ?thesis
        using "1.IH"(2) [OF i le False] i False by (auto simp add: split)
    qed
  qed
qed

lemma bitpacking_zone:
  assumes "bitpacking_loop 0 s (0, 0) = Some (sz, az)"
  shows "bit az n \<longleftrightarrow> n < 10 \<and> 0 < s ! n"
  using bitpacking_loop_active [OF assms, of n] by simp

lemma bitpacking_field:
  assumes "bitpacking_loop 0 s (0, 0) = Some (sz, az)" and "k < 10" and "0 < s ! k"
  shows "drop_bit (3 * k) sz AND 0x07 = ucast (take_bit 3 (s ! k - 1))"
proof -
  have m: "drop_bit (3 * k) sz AND 0x07 = take_bit 3 (drop_bit (3 * k) sz)"
    by (simp add: take_bit_eq_mask mask_eq_exp_minus_1)
  show ?thesis
    unfolding m
  proof (rule bit_word_eqI)
    fix n assume "n < LENGTH(32)"
    have d: "(3 * k + n) div 3 = k" "(3 * k + n) mod 3 = n" if "n < 3"
      using that by simp_all
    from bitpacking_loop_strength [OF assms(1), of "3 * k + n"] assms(2,3)
    show "bit (take_bit 3 (drop_bit (3 * k) sz)) n \<longleftrightarrow>
          bit (ucast (take_bit 3 (s ! k - 1)) :: u32) n"
      by (auto simp add: bit_simps d)
  qed
qed

lemma bitpacking_array_wire:
  assumes "bitpacking_loop 0 s (0, 0) = Some (sz, az)"
  shows "fst (trigger_bitpacking_array ds trigger mode s f) = Success"
    and "wire_common (bt ds) (last (dev (snd (trigger_bitpacking_array ds trigger mode s f)))) =
     [trigger_enable trigger, 0, 0, 0, 0, 0, 0, 0, 0, 0,
      mode, ucast (az AND 0xff), ucast (drop_bit 8 az AND 0xff), ucast (sz AND 0xff),
      ucast (drop_bit 8 sz AND 0xff), ucast (drop_bit 16 sz AND 0xff),
      ucast (drop_bit 24 sz AND 0xff), 0, 0, f, 0,
      mode, ucast (az AND 0xff), ucast (drop_bit 8 az AND 0xff), ucast (sz AND 0xff),
      ucast (drop_bit 8 sz AND 0xff), ucast (drop_bit 16 sz AND 0xff),
      ucast (drop_bit 24 sz AND 0xff), 0, 0, f, 0,
      0, 0, 0, 0, 0, 0, 0, 0, 0, 0, 0, 0, 0, 0, 0]"
  using assms
  by (simp_all add: trigger_bitpacking_array_def command_trigger_result command_trigger_wire)

lemma bitpacking_array_params:
  fixes ds trigger mode f
  assumes "bitpacking_loop 0 s (0, 0) = Some (sz, az)"
  defines "c \<equiv> wire_common (bt ds) (last (dev (snd (trigger_bitpacking_array ds trigger mode s f))))"
  shows "param_active_zones (wire_right_trigger_param c) = az"
    and "param_strength_zones (wire_right_trigger_param c) = sz"
    and "param_frequency (wire_right_trigger_param c) = f"
    and "wire_left_trigger_param c = wire_right_trigger_param c"
    and "wire_right_trigger_motor_mode c = mode"
    and "wire_left_trigger_motor_mode c = mode"
  unfolding c_def bitpacking_array_wire(2) [OF assms(1)]
  by (simp_all add: wire_right_trigger_param_def wire_left_trigger_param_def
      wire_right_trigger_motor_mode_def wire_left_trigger_motor_mode_def
      param_active_zones_def param_strength_zones_def param_frequency_def u16_bytes u32_bytes)

lemma bitpacking_array_accepts:
  "(fst (trigger_bitpacking_array ds trigger mode s f) = Success) = (\<forall>k<10. s ! k \<le> 8)"
  unfolding bitpacking_loop_Some_iff [of s "(0, 0)", symmetric]
  by (auto simp add: trigger_bitpacking_array_def command_trigger_result split: option.splits)

lemma strengths_list:
  "length xs = 10 \<Longrightarrow> (\<forall>k<10. xs ! k \<le> (8 :: u8)) = list_all (\<lambda>s. unat s \<le> 8) xs"
  by (simp add: list_all_iff all_set_conv_all_nth word_le_nat_alt)

lemma raw_accepts:
  "(fst (trigger_bitpacking_array ds trigger mode [s0, s1, s2, s3, s4, s5, s6, s7, s8, s9] f) =
      Success) =
   list_all (\<lambda>s. unat s \<le> 8) [s0, s1, s2, s3, s4, s5, s6, s7, s8, s9]"
  unfolding bitpacking_array_accepts by (rule strengths_list) simp

lemma filled_accepts:
  "strength \<le> 8 \<Longrightarrow>
   fst (trigger_bitpacking_array ds trigger mode (fill_loop i strength (replicate 10 0)) f) =
     Success"
  by (simp add: bitpacking_array_accepts fill_loop_nth)

subsection \<open>What the guards accept\<close>

text \<open>
  What the guards accept, against the documented ranges: they agree for every effect
  but two. The bow effect is also turned down at start position 0, and the raw vibration
  is accepted whatever its frequency.
\<close>

lemma trigger_validation:
  "(fst (trigger_effect_dispatch ds trigger effect) = Success) =
     (case effect of
        Bow start_position end_position strength snap_force \<Rightarrow>
          documented_range effect \<and> start_position \<noteq> 0
      | Vibration_raw s0 s1 s2 s3 s4 s5 s6 s7 s8 s9 frequency \<Rightarrow>
          documented_range (Feedback_raw s0 s1 s2 s3 s4 s5 s6 s7 s8 s9)
      | _ \<Rightarrow> documented_range effect)"
proof (cases effect)
  case Off
  then show ?thesis by (simp add: command_trigger_off_def command_trigger_result)
next
  case (Feedback position strength)
  then show ?thesis
    by (auto simp add: command_trigger_feedback_def Let_def filled_accepts not_less
        word_le_nat_alt word_less_nat_alt unat_gt_0 Suc_le_eq)
next
  case (Weapon start_position end_position strength)
  then show ?thesis
    by (auto simp add: command_trigger_weapon_def Let_def command_trigger_result not_less
        word_le_nat_alt word_less_nat_alt unat_gt_0 Suc_le_eq)
next
  case (Bow start_position end_position strength snap_force)
  then show ?thesis
    by (auto simp add: command_trigger_bow_def Let_def command_trigger_result not_less
        word_le_nat_alt word_less_nat_alt unat_gt_0 Suc_le_eq)
next
  case (Galloping start_position end_position first_foot second_foot frequency)
  then show ?thesis
    by (auto simp add: command_trigger_galloping_def Let_def command_trigger_result not_less
        word_le_nat_alt word_less_nat_alt unat_gt_0 Suc_le_eq)
next
  case (Machine start_position end_position strength_a strength_b frequency period)
  then show ?thesis
    by (auto simp add: command_trigger_machine_def Let_def command_trigger_result not_less
        word_le_nat_alt word_less_nat_alt unat_gt_0 Suc_le_eq)
next
  case (Vibration position amplitude frequency)
  then show ?thesis
    by (auto simp add: command_trigger_vibration_def Let_def filled_accepts not_less
        word_le_nat_alt word_less_nat_alt unat_gt_0 Suc_le_eq)
next
  case (Feedback_raw s0 s1 s2 s3 s4 s5 s6 s7 s8 s9)
  then show ?thesis
    by (simp only: trigger_effect_dispatch.simps command_trigger_feedback_raw_def
        raw_accepts trigger_effect.case documented_range.simps)
next
  case (Vibration_raw s0 s1 s2 s3 s4 s5 s6 s7 s8 s9 frequency)
  then show ?thesis
    by (simp only: trigger_effect_dispatch.simps command_trigger_vibration_raw_def
        raw_accepts trigger_effect.case documented_range.simps)
next
  case (Mode mode param1 param2 param3 param4 param5 param6 param7 param8 param9)
  then show ?thesis by (simp add: command_trigger_result)
qed

text \<open>
  Hence every parameter outside its documented range makes a trigger command fail before
  a report is built, the session being left as it was, with one exception: a raw
  vibration whose frequency is 0.
\<close>

lemma out_of_range_rejected:
  assumes "\<not> documented_range effect"
    and "case effect of
           Vibration_raw s0 s1 s2 s3 s4 s5 s6 s7 s8 s9 frequency \<Rightarrow> frequency \<noteq> 0
         | _ \<Rightarrow> True"
  shows "fst (main_trigger ds trigger effect) \<noteq> Success \<and>
         snd (main_trigger ds trigger effect) = ds"
proof -
  have "fst (trigger_effect_dispatch ds trigger effect) \<noteq> Success"
    using assms unfolding trigger_validation
    by (cases effect) (auto simp add: unat_gt_0)
  then have "fst (main_trigger ds trigger effect) \<noteq> Success"
    by (simp add: main_trigger_def)
  then show ?thesis
    by (simp add: trigger_failure_before_io)
qed

text \<open>
  What the bow effect sends once its guards have passed: mode 0x22, the zone bitmap
  \<open>bit(start) | bit(end)\<close> in the first two parameter bytes and the force byte
  \<open>((strength - 1) & 7) | (((snap_force - 1) & 7) << 3)\<close> in the third.
\<close>

lemma bow_emits:
  assumes "fst (command_trigger_bow ds trigger start_position end_position strength snap_force) =
    Success"
  shows "wire_common (bt ds) (last (dev (snd
      (command_trigger_bow ds trigger start_position end_position strength snap_force)))) =
     [trigger_enable trigger, 0, 0, 0, 0, 0, 0, 0, 0, 0,
      0x22, ucast (start_stop_zones start_position end_position AND 0xff),
      ucast (drop_bit 8 (start_stop_zones start_position end_position) AND 0xff),
      ((strength - 1) AND 0x07) OR push_bit 3 ((snap_force - 1) AND 0x07),
      0, 0, 0, 0, 0, 0, 0,
      0x22, ucast (start_stop_zones start_position end_position AND 0xff),
      ucast (drop_bit 8 (start_stop_zones start_position end_position) AND 0xff),
      ((strength - 1) AND 0x07) OR push_bit 3 ((snap_force - 1) AND 0x07),
      0, 0, 0, 0, 0, 0, 0,
      0, 0, 0, 0, 0, 0, 0, 0, 0, 0, 0, 0, 0, 0, 0]"
  using assms
  by (simp add: command_trigger_bow_def Let_def command_trigger_wire byte_of_u32
      DS_TRIGGER_EFFECT_BOW_def split: if_splits)

subsection \<open>The sequence counter\<close>

text \<open>
  One step of the counter, and the nibbles of the reports of a run of commands.
\<close>

lemma output_seq_next_seq:
  assumes "bt ds" and "output_seq ds = of_nat (k mod 16)"
  shows "output_seq (next_seq ds) = of_nat (Suc k mod 16)"
proof (cases "k mod 16 = 15")
  case True
  then have "output_seq ds + 1 = 16" using assms(2) by simp
  moreover have "Suc k mod 16 = 0" using True by (simp add: mod_Suc)
  ultimately show ?thesis using assms(1) by (simp add: next_seq_def)
next
  case False
  have le: "Suc (k mod 16) \<le> 16" by (simp add: Suc_le_eq)
  have eq: "output_seq ds + 1 = of_nat (Suc (k mod 16))" using assms(2) by simp
  have "output_seq ds + 1 \<noteq> 16"
    unfolding eq of_nat_eq_16 [OF le] using False by simp
  moreover have "Suc k mod 16 = Suc (k mod 16)" using False by (simp add: mod_Suc)
  ultimately show ?thesis using assms(1) eq by (simp add: next_seq_def)
qed

lemma seq_nibble_wire:
  "bt ds \<Longrightarrow> seq_nibble (wire ds c) = drop_bit 4 (push_bit 4 (output_seq ds))"
  by (simp add: seq_nibble_def wire_def signed_part_def)

lemma seq_nibble_report_of:
  "bt ds \<Longrightarrow> seq_nibble (rp_data (report_of ds c)) = drop_bit 4 (push_bit 4 (output_seq ds))"
  by (simp add: seq_nibble_def report_of_def rp_data_def bt_bytes_def)

lemma next_seq_iterate:
  "bt ds \<Longrightarrow> output_seq ds = of_nat (k mod 16) \<Longrightarrow>
   bt ((next_seq ^^ n) ds) \<and> output_seq ((next_seq ^^ n) ds) = of_nat ((k + n) mod 16)"
proof (induction n)
  case 0
  then show ?case by simp
next
  case (Suc n)
  then show ?case
    using output_seq_next_seq [of "(next_seq ^^ n) ds" "k + n"] by simp
qed

lemma seq_nibble_sent:
  assumes "bt ds" and "output_seq ds = of_nat (k mod 16)"
  shows "unat (seq_nibble (wire ds c)) = k mod 16"
proof -
  have "unat (output_seq ds) < 16" by (simp add: assms(2) unat_nibble)
  then show ?thesis
    by (simp add: seq_nibble_wire [OF assms(1)] nibble_roundtrip assms(2) unat_nibble)
qed

lemma session_sent:
  "bt ds \<Longrightarrow> output_seq ds = of_nat (k mod 16) \<Longrightarrow> all_sent ds cs \<Longrightarrow>
   \<exists>rs. dev (session ds cs) = dev ds @ rs \<and>
        map (unat \<circ> seq_nibble) rs = map (\<lambda>j. (k + j) mod 16) [0..<length cs]"
proof (induction cs arbitrary: ds k)
  case Nil
  then show ?case by simp
next
  case (Cons c cs)
  from Cons.prems(3) have ok: "fst (main_command ds c) = Success"
    and rest: "all_sent (snd (main_command ds c)) cs"
    by simp_all
  from ok obtain cm where cm: "wf_common cm"
    and ds1: "snd (main_command ds c) = (next_seq ds)\<lparr>dev := dev ds @ [wire ds cm]\<rparr>"
    by (rule main_command_sent)
  let ?ds1 = "snd (main_command ds c)"
  have bt1: "bt ?ds1" using Cons.prems(1) by (simp add: ds1)
  have seq1: "output_seq ?ds1 = of_nat (Suc k mod 16)"
    using output_seq_next_seq [OF Cons.prems(1,2)] by (simp add: ds1)
  from Cons.IH [OF bt1 seq1 rest] obtain rs where
    rs: "dev (session ?ds1 cs) = dev ?ds1 @ rs"
    and nib: "map (unat \<circ> seq_nibble) rs = map (\<lambda>j. (Suc k + j) mod 16) [0..<length cs]"
    by blast
  have "dev (session ds (c # cs)) = dev ds @ (wire ds cm # rs)"
    using rs by (simp add: ds1)
  moreover have "map (unat \<circ> seq_nibble) (wire ds cm # rs) =
      map (\<lambda>j. (k + j) mod 16) [0..<length (c # cs)]"
    using nib seq_nibble_sent [OF Cons.prems(1,2), of cm]
    by (simp add: upt_conv_Cons map_Suc_upt [symmetric] del: upt_Suc)
  ultimately show ?case by blast
qed

text \<open>
  The same for a run in which a command may also fail before it builds its report: the
  reports on the wire are numbered as they come.
\<close>

lemma session_every_built_sent:
  "bt ds \<Longrightarrow> output_seq ds = of_nat (k mod 16) \<Longrightarrow> every_built_sent ds cs \<Longrightarrow>
   \<exists>rs. dev (session ds cs) = dev ds @ rs \<and>
        map (unat \<circ> seq_nibble) rs = map (\<lambda>j. (k + j) mod 16) [0..<length rs]"
proof (induction cs arbitrary: ds k)
  case Nil
  then show ?case by simp
next
  case (Cons c cs)
  let ?ds1 = "snd (main_command ds c)"
  from Cons.prems(3) have rest: "every_built_sent ?ds1 cs"
    and alt: "fst (main_command ds c) = Success \<or> ?ds1 = ds"
    by simp_all
  show ?case
  proof (cases "fst (main_command ds c) = Success")
    case True
    then obtain cm where cm: "wf_common cm"
      and ds1: "?ds1 = (next_seq ds)\<lparr>dev := dev ds @ [wire ds cm]\<rparr>"
      by (rule main_command_sent)
    have bt1: "bt ?ds1" using Cons.prems(1) by (simp add: ds1)
    have seq1: "output_seq ?ds1 = of_nat (Suc k mod 16)"
      using output_seq_next_seq [OF Cons.prems(1,2)] by (simp add: ds1)
    from Cons.IH [OF bt1 seq1 rest] obtain rs where
      rs: "dev (session ?ds1 cs) = dev ?ds1 @ rs"
      and nib: "map (unat \<circ> seq_nibble) rs = map (\<lambda>j. (Suc k + j) mod 16) [0..<length rs]"
      by blast
    have "dev (session ds (c # cs)) = dev ds @ (wire ds cm # rs)"
      using rs by (simp add: ds1)
    moreover have "map (unat \<circ> seq_nibble) (wire ds cm # rs) =
        map (\<lambda>j. (k + j) mod 16) [0..<length (wire ds cm # rs)]"
      using nib seq_nibble_sent [OF Cons.prems(1,2), of cm]
      by (simp add: upt_conv_Cons map_Suc_upt [symmetric] del: upt_Suc)
    ultimately show ?thesis by blast
  next
    case False
    with alt have same: "?ds1 = ds" by simp
    from Cons.IH [OF _ _ rest] Cons.prems(1,2) same show ?thesis by simp
  qed
qed

section \<open>The claims\<close>

subsection \<open>C1: the signature of a Bluetooth report\<close>

text \<open>
  C1. Let \<^verbatim>\<open>len\<close> be the size of the report buffer. For a Bluetooth report
  (\<^verbatim>\<open>report->bt\<close> is not \<^verbatim>\<open>NULL\<close>) \<^verbatim>\<open>dualsense_send_output_report\<close> hands \<^verbatim>\<open>len\<close> bytes
  to \<^verbatim>\<open>hid_write\<close>; the first \<^verbatim>\<open>len - 4\<close> are those of the buffer as built, and the last
  four hold, least significant byte first, the complement of
  \<^verbatim>\<open>crc32_le(crc32_le(0xFFFFFFFF, [0xA2]), first len - 4 bytes)\<close>: computing the CRC
  again over the first \<^verbatim>\<open>len - 4\<close> bytes that were sent gives the value the last four
  bytes read back to. For a USB report the buffer goes out as built, nothing is signed.
  So it is for every report a command sends: on Bluetooth its last four bytes are the
  signature of its first 74, on USB its last 15 bytes are the reserved zeros.
\<close>

theorem send_output_report_signature:
  "(unat (rp_len report) = length (rp_data report) \<longrightarrow>
      (rp_bt report \<noteq> None \<longrightarrow>
         (let sent = last (dev (dualsense_send_output_report ds report));
              n = length sent
          in dev (dualsense_send_output_report ds report) = dev ds @ [sent] \<and>
             n = length (rp_data report) \<and>
             take (n - 4) sent = take (n - 4) (rp_data report) \<and>
             drop (n - 4) sent =
               le32 (NOT (crc32_le (crc32_le 0xFFFFFFFF [0xA2]) (take (n - 4) sent))) \<and>
             read_le32 (drop (n - 4) sent) =
               NOT (crc32_le (crc32_le 0xFFFFFFFF [0xA2]) (take (n - 4) sent)))) \<and>
      (rp_bt report = None \<longrightarrow>
         dev (dualsense_send_output_report ds report) = dev ds @ [rp_data report])) \<and>
   (\<forall>r \<in> set (new_reports ds (snd (main_command ds c))).
      (bt ds \<longrightarrow>
         length r = 78 \<and>
         drop 74 r = le32 (NOT (crc32_le (crc32_le 0xFFFFFFFF [0xA2]) (take 74 r))) \<and>
         read_le32 (drop 74 r) = NOT (crc32_le (crc32_le 0xFFFFFFFF [0xA2]) (take 74 r))) \<and>
      (\<not> bt ds \<longrightarrow> length r = 63 \<and> drop 48 r = replicate 15 0))"
proof (intro conjI ballI)
  show "unat (rp_len report) = length (rp_data report) \<longrightarrow>
      (rp_bt report \<noteq> None \<longrightarrow>
         (let sent = last (dev (dualsense_send_output_report ds report));
              n = length sent
          in dev (dualsense_send_output_report ds report) = dev ds @ [sent] \<and>
             n = length (rp_data report) \<and>
             take (n - 4) sent = take (n - 4) (rp_data report) \<and>
             drop (n - 4) sent =
               le32 (NOT (crc32_le (crc32_le 0xFFFFFFFF [0xA2]) (take (n - 4) sent))) \<and>
             read_le32 (drop (n - 4) sent) =
               NOT (crc32_le (crc32_le 0xFFFFFFFF [0xA2]) (take (n - 4) sent)))) \<and>
      (rp_bt report = None \<longrightarrow>
         dev (dualsense_send_output_report ds report) = dev ds @ [rp_data report])"
    by (rule impI) (rule send_signs)
next
  fix r assume "r \<in> set (new_reports ds (snd (main_command ds c)))"
  then obtain cm where cm: "wf_common cm" and w: "r = wire ds cm"
    using outcome_main [of ds c] unfolding outcome_ok_def by auto
  show "bt ds \<longrightarrow>
         length r = 78 \<and>
         drop 74 r = le32 (NOT (crc32_le (crc32_le 0xFFFFFFFF [0xA2]) (take 74 r))) \<and>
         read_le32 (drop 74 r) = NOT (crc32_le (crc32_le 0xFFFFFFFF [0xA2]) (take 74 r))"
  proof
    assume b: "bt ds"
    note s = wire_signed [OF cm b, folded w]
    have "read_le32 (drop 74 r) = NOT (crc32_le (crc32_le 0xFFFFFFFF [0xA2]) (take 74 r))"
      unfolding s(2) by (rule read_le32_le32)
    with s show "length r = 78 \<and>
         drop 74 r = le32 (NOT (crc32_le (crc32_le 0xFFFFFFFF [0xA2]) (take 74 r))) \<and>
         read_le32 (drop 74 r) = NOT (crc32_le (crc32_le 0xFFFFFFFF [0xA2]) (take 74 r))"
      by (intro conjI)
  qed
  show "\<not> bt ds \<longrightarrow> length r = 63 \<and> drop 48 r = replicate 15 0"
  proof
    assume b: "\<not> bt ds"
    from wire_unsigned [OF cm b, folded w]
    show "length r = 63 \<and> drop 48 r = replicate 15 0" by (intro conjI)
  qed
qed

text \<open>
  The report that \<^verbatim>\<open>dualsense_init_output_report\<close> builds on a fresh Bluetooth session:
  78 bytes go out, and the last four are the signature of the first 74. So are the last
  four bytes of the report that \<^verbatim>\<open>lightbar on\<close> sends.
\<close>

theorem send_output_report_signature_witness:
  "unat (rp_len (snd (dualsense_init_output_report (dualsense_init (- 1))))) =
     length (rp_data (snd (dualsense_init_output_report (dualsense_init (- 1))))) \<and>
   rp_bt (snd (dualsense_init_output_report (dualsense_init (- 1)))) \<noteq> None \<and>
   length (last (dev (dualsense_send_output_report (dualsense_init (- 1))
     (snd (dualsense_init_output_report (dualsense_init (- 1))))))) = 78 \<and>
   drop 74 (last (dev (dualsense_send_output_report (dualsense_init (- 1))
     (snd (dualsense_init_output_report (dualsense_init (- 1))))))) =
     le32 (NOT (crc32_le (crc32_le 0xFFFFFFFF [0xA2])
       (take 74 (last (dev (dualsense_send_output_report (dualsense_init (- 1))
         (snd (dualsense_init_output_report (dualsense_init (- 1)))))))))) \<and>
   new_reports (dualsense_init (- 1))
     (snd (main_command (dualsense_init (- 1)) (Lightbar1 ''on''))) \<noteq> [] \<and>
   drop 74 (hd (new_reports (dualsense_init (- 1))
     (snd (main_command (dualsense_init (- 1)) (Lightbar1 ''on''))))) =
     le32 (NOT (crc32_le (crc32_le 0xFFFFFFFF [0xA2])
       (take 74 (hd (new_reports (dualsense_init (- 1))
         (snd (main_command (dualsense_init (- 1)) (Lightbar1 ''on''))))))))"
proof -
  let ?D = "dualsense_init (- 1)"
  let ?R = "snd (dualsense_init_output_report ?D)"
  have l: "length (rp_data ?R) = 78"
    by (simp add: init_report_of report_of_def rp_data_def bt_bytes_def dualsense_init_def
        length_common_bytes)
  have h: "unat (rp_len ?R) = length (rp_data ?R)"
    unfolding l by (simp add: init_report_of report_of_def dualsense_init_def sizeof_bt_def)
  have b: "rp_bt ?R \<noteq> None"
    by (simp add: init_report_of report_of_def dualsense_init_def)
  let ?S = "last (dev (dualsense_send_output_report ?D ?R))"
  note inst = send_output_report_signature [of ?R ?D "Lightbar1 ''on''"]
  note t = inst [THEN conjunct1, rule_format, OF h, THEN conjunct1, rule_format, OF b,
      unfolded Let_def]
  have len: "length ?S = 78"
    using t [THEN conjunct2, THEN conjunct1] l by (rule trans)
  have sig: "drop 74 ?S = le32 (NOT (crc32_le (crc32_le 0xFFFFFFFF [0xA2]) (take 74 ?S)))"
    using t [THEN conjunct2, THEN conjunct2, THEN conjunct2, THEN conjunct1]
    unfolding len by simp
  let ?N = "new_reports ?D (snd (main_command ?D (Lightbar1 ''on'')))"
  have n: "?N \<noteq> []"
    by (simp add: command_lightbar1_def init_report_of Let_def send_report_of)
  then have "hd ?N \<in> set ?N" by simp
  moreover have "bt ?D" by (simp add: dualsense_init_def)
  ultimately have cmd: "drop 74 (hd ?N) =
      le32 (NOT (crc32_le (crc32_le 0xFFFFFFFF [0xA2]) (take 74 (hd ?N))))"
    using inst [THEN conjunct2] by blast
  from h b len sig n cmd show ?thesis by (intro conjI)
qed

subsection \<open>C2: the length of an output report\<close>

text \<open>
  C2 as stated (64 bytes on USB, 79 on Bluetooth) fails: the report that
  \<^verbatim>\<open>lightbar on\<close> sends is 63 bytes long on USB and 78 bytes long on Bluetooth, the
  sizes of the two packed structures, report id included.
\<close>

theorem output_report_lengths_counterexample:
  "length (last (dev (snd (main_command (dualsense_init 0) (Lightbar1 ''on''))))) = 63 \<and>
   length (last (dev (snd (main_command (dualsense_init 0) (Lightbar1 ''on''))))) \<noteq> 64 \<and>
   length (last (dev (snd (main_command (dualsense_init (- 1)) (Lightbar1 ''on''))))) = 78 \<and>
   length (last (dev (snd (main_command (dualsense_init (- 1)) (Lightbar1 ''on''))))) \<noteq> 79"
  by (simp add: command_lightbar1_def init_report_of Let_def send_report_of length_wire
      dualsense_init_def)

text \<open>
  C2, amended. The report that \<^verbatim>\<open>dualsense_init_output_report\<close> builds is 63 bytes
  long on USB and 78 bytes long on Bluetooth, and so says its \<^verbatim>\<open>len\<close>. Whatever the
  command, it hands at most one report to \<^verbatim>\<open>hid_write\<close>, and exactly one when it
  returns 0; each such report is exactly 63 bytes long on USB and exactly 78 bytes long
  on Bluetooth, the report id (0x02 or 0x31) being its first byte.
\<close>

theorem output_report_lengths:
  "unat (rp_len (snd (dualsense_init_output_report ds))) = (if bt ds then 78 else 63) \<and>
   length (rp_data (snd (dualsense_init_output_report ds))) = (if bt ds then 78 else 63) \<and>
   dev (snd (main_command ds c)) = dev ds @ new_reports ds (snd (main_command ds c)) \<and>
   (fst (main_command ds c) = Success) = (length (new_reports ds (snd (main_command ds c))) = 1) \<and>
   length (new_reports ds (snd (main_command ds c))) \<le> 1 \<and>
   (\<forall>r \<in> set (new_reports ds (snd (main_command ds c))).
      length r = (if bt ds then 78 else 63) \<and> r ! 0 = (if bt ds then 0x31 else 0x02))"
proof -
  have "unat (rp_len (snd (dualsense_init_output_report ds))) = (if bt ds then 78 else 63)"
    and "length (rp_data (snd (dualsense_init_output_report ds))) = (if bt ds then 78 else 63)"
    by (simp_all add: init_report_of report_of_def rp_data_def bt_bytes_def usb_bytes_def
        sizeof_bt_def sizeof_usb_def length_common_bytes)
  moreover have
    "dev (snd (main_command ds c)) = dev ds @ new_reports ds (snd (main_command ds c)) \<and>
     (fst (main_command ds c) = Success) =
       (length (new_reports ds (snd (main_command ds c))) = 1) \<and>
     length (new_reports ds (snd (main_command ds c))) \<le> 1 \<and>
     (\<forall>r \<in> set (new_reports ds (snd (main_command ds c))).
        length r = (if bt ds then 78 else 63) \<and> r ! 0 = (if bt ds then 0x31 else 0x02))"
    using outcome_main [of ds c] unfolding outcome_ok_def
    by (auto simp add: length_wire wire_id)
  ultimately show ?thesis by (intro conjI) blast+
qed

text \<open>
  \<^verbatim>\<open>lightbar on\<close> on a Bluetooth session sends one report of 78 bytes, \<^verbatim>\<open>volume 200\<close> on
  a USB session one report of 63 bytes.
\<close>

theorem output_report_lengths_witness:
  "fst (main_command (dualsense_init (- 1)) (Lightbar1 ''on'')) = Success \<and>
   length (new_reports (dualsense_init (- 1))
     (snd (main_command (dualsense_init (- 1)) (Lightbar1 ''on'')))) = 1 \<and>
   length (hd (new_reports (dualsense_init (- 1))
     (snd (main_command (dualsense_init (- 1)) (Lightbar1 ''on''))))) = 78 \<and>
   fst (main_command (dualsense_init 0) (Volume 200)) = Success \<and>
   length (hd (new_reports (dualsense_init 0)
     (snd (main_command (dualsense_init 0) (Volume 200))))) = 63"
proof -
  let ?D = "dualsense_init (- 1)" and ?C = "Lightbar1 ''on''"
  let ?N = "new_reports ?D (snd (main_command ?D ?C))"
  have s: "fst (main_command ?D ?C) = Success"
    by (simp add: command_lightbar1_def init_report_of Let_def)
  note t = output_report_lengths [of ?D ?C]
  from t s have l: "length ?N = 1" by simp
  then have "hd ?N \<in> set ?N" by (cases ?N) simp_all
  with t have h: "length (hd ?N) = 78" by (simp add: dualsense_init_def)
  let ?D' = "dualsense_init 0" and ?C' = "Volume 200"
  let ?N' = "new_reports ?D' (snd (main_command ?D' ?C'))"
  have s': "fst (main_command ?D' ?C') = Success"
    by (simp add: command_volume_def init_report_of Let_def)
  note t' = output_report_lengths [of ?D' ?C']
  from t' s' have l': "length ?N' = 1" by simp
  then have "hd ?N' \<in> set ?N'" by (cases ?N') simp_all
  with t' have h': "length (hd ?N') = 63" by (simp add: dualsense_init_def)
  from s l h s' h' show ?thesis by (intro conjI)
qed

subsection \<open>C3: the battery query\<close>

text \<open>
  C3. On a report that \<^verbatim>\<open>command_battery\<close> accepts (USB: id 0x01 and 64 bytes, status
  byte at index 53 of the buffer; Bluetooth: id 0x31 and 78 bytes, status byte at index
  54), with nibble = status AND 0xF and code = (status >> 4) AND 0xF, the command
  returns 0 and prints: for code 0x0 the capacity min(nibble * 10 + 5, 100) and
  "discharging"; for code 0x1 the same capacity and "charging"; for code 0x2 capacity
  100 and "full" whatever the nibble; for codes 0xA and 0xB capacity 0 and
  "not-charging"; for every other code, 0xF among them, capacity 0 and "unknown".
\<close>

theorem battery_mapping:
  assumes "length data = 78"
    and "(\<not> bt ds \<and> data ! 0 = 0x01 \<and> res = 64 \<and> status = data ! 53) \<or>
         (bt ds \<and> data ! 0 = 0x31 \<and> res = 78 \<and> status = data ! 54)"
  shows "command_battery ds res data =
     (Success,
      Some (let nibble = status AND 0xF; code = drop_bit 4 status AND 0xF
            in if code = 0x0 then (int (min (unat nibble * 10 + 5) 100), ''discharging'')
               else if code = 0x1 then (int (min (unat nibble * 10 + 5) 100), ''charging'')
               else if code = 0x2 then (100, ''full'')
               else if code = 0xA \<or> code = 0xB then (0, ''not-charging'')
               else (0, ''unknown'')))"
  using assms
  by (auto simp add: command_battery_def input_report_status_def Let_def charging_code
      uint_capacity
      DS_INPUT_REPORT_USB_def DS_INPUT_REPORT_USB_SIZE_def DS_INPUT_REPORT_BT_def
      DS_INPUT_REPORT_BT_SIZE_def DS_STATUS_BATTERY_CAPACITY_def DS_STATUS_CHARGING_def
      DS_STATUS_CHARGING_SHIFT_def)

text \<open>
  The status byte 0x05 on USB prints 55 and "discharging"; the status byte 0x2A on
  Bluetooth (code 0x2, nibble 10) prints 100 and "full".
\<close>

theorem battery_mapping_witness:
  "command_battery (dualsense_init 0) 64 ((replicate 78 0)[0 := 0x01, 53 := 0x05]) =
     (Success, Some (55, ''discharging'')) \<and>
   command_battery (dualsense_init (- 1)) 78 ((replicate 78 0)[0 := 0x31, 54 := 0x2A]) =
     (Success, Some (100, ''full''))"
  using battery_mapping [of "(replicate 78 0)[0 := 0x01, 53 := 0x05]" "dualsense_init 0" 64 "0x05"]
    battery_mapping [of "(replicate 78 0)[0 := 0x31, 54 := 0x2A]" "dualsense_init (- 1)" 78 "0x2A"]
  by (simp add: dualsense_init_def)

subsection \<open>C4: the feedback effect\<close>

text \<open>
  C4. For a position in 0 to 9 and a strength in 1 to 8, \<^verbatim>\<open>command_trigger_feedback\<close>
  returns 0 and sends one report with mode 0x21 whose two trigger blocks carry the same
  parameters. Read back from the parameter bytes, the 16-bit zone bitmap has bit \<open>i\<close>
  set exactly for the zones \<open>i\<close> with position \<open>\<le> i < 10\<close> (ten zones, so the bits
  10 to 15 are clear); for each of these zones the three bits at offset \<open>3 * i\<close> of
  the 32-bit strength accumulator hold strength - 1; and the frequency byte is 0.
\<close>

theorem feedback_packing:
  fixes ds trigger
  assumes "position \<le> 9" and "1 \<le> strength" and "strength \<le> 8"
  defines "c \<equiv> wire_common (bt ds)
    (last (dev (snd (command_trigger_feedback ds trigger position strength))))"
  shows "fst (command_trigger_feedback ds trigger position strength) = Success \<and>
    wire_right_trigger_motor_mode c = 0x21 \<and> wire_left_trigger_motor_mode c = 0x21 \<and>
    wire_left_trigger_param c = wire_right_trigger_param c \<and>
    (\<forall>i. bit (param_active_zones (wire_right_trigger_param c)) i \<longleftrightarrow>
           unat position \<le> i \<and> i < 10) \<and>
    (\<forall>i. unat position \<le> i \<and> i < 10 \<longrightarrow>
           drop_bit (3 * i) (param_strength_zones (wire_right_trigger_param c)) AND 0x07 =
           ucast (strength - 1)) \<and>
    param_frequency (wire_right_trigger_param c) = 0"
proof -
  define s where "s = fill_loop (unat position) strength (replicate 10 0)"
  have nth: "s ! k = (if unat position \<le> k then strength else 0)" if "k < 10" for k
    using that by (simp add: s_def fill_loop_nth)
  have pos: "0 < strength" and le: "strength \<le> 8"
    using assms(2,3) by (simp_all add: word_less_nat_alt word_le_nat_alt)
  have "\<forall>k<10. s ! k \<le> 8"
    using le by (simp add: nth)
  then obtain sz az where loop: "bitpacking_loop 0 s (0, 0) = Some (sz, az)"
    using bitpacking_loop_Some [of s 0 "(0, 0)"] by auto
  have "\<not> 9 < position" and "\<not> 8 < strength"
    using assms(1) le by (simp_all add: not_less)
  then have cmd: "command_trigger_feedback ds trigger position strength =
      trigger_bitpacking_array ds trigger 0x21 s 0"
    using pos
    by (simp add: command_trigger_feedback_def s_def Let_def DS_TRIGGER_EFFECT_FEEDBACK_def)
  note p = bitpacking_array_params [OF loop, of ds trigger "0x21" 0, folded cmd, folded c_def]
  have zone: "bit az i \<longleftrightarrow> unat position \<le> i \<and> i < 10" for i
    using pos by (auto simp add: bitpacking_zone [OF loop] nth split: if_splits)
  have field: "drop_bit (3 * i) sz AND 0x07 = ucast (strength - 1)"
    if "unat position \<le> i" "i < 10" for i
    using bitpacking_field [OF loop, of i] that pos
    by (simp add: nth small_strength [OF assms(2,3)])
  show ?thesis
    using bitpacking_array_wire(1) [OF loop, of ds trigger "0x21" 0]
    by (simp add: cmd [symmetric] p zone field)
qed

text \<open>
  Position 3 with strength 5 on a Bluetooth session: zone 2 is clear, zone 3 is set, the
  field of zone 3 (bits 9 to 11) holds 4, and the frequency is 0.
\<close>

theorem feedback_packing_witness:
  "(3 :: u8) \<le> 9 \<and> (1 :: u8) \<le> 5 \<and> (5 :: u8) \<le> 8 \<and>
   fst (command_trigger_feedback (dualsense_init (- 1)) ''right'' 3 5) = Success \<and>
   \<not> bit (param_active_zones (wire_right_trigger_param (wire_common (bt (dualsense_init (- 1)))
     (last (dev (snd (command_trigger_feedback (dualsense_init (- 1)) ''right'' 3 5))))))) 2 \<and>
   bit (param_active_zones (wire_right_trigger_param (wire_common (bt (dualsense_init (- 1)))
     (last (dev (snd (command_trigger_feedback (dualsense_init (- 1)) ''right'' 3 5))))))) 3 \<and>
   drop_bit 9 (param_strength_zones (wire_right_trigger_param
     (wire_common (bt (dualsense_init (- 1)))
       (last (dev (snd (command_trigger_feedback (dualsense_init (- 1)) ''right'' 3 5))))))) AND
     0x07 = 4 \<and>
   param_frequency (wire_right_trigger_param (wire_common (bt (dualsense_init (- 1)))
     (last (dev (snd (command_trigger_feedback (dualsense_init (- 1)) ''right'' 3 5)))))) = 0"
proof -
  let ?P = "wire_right_trigger_param (wire_common (bt (dualsense_init (- 1)))
     (last (dev (snd (command_trigger_feedback (dualsense_init (- 1)) ''right'' 3 5)))))"
  have h: "(3 :: u8) \<le> 9" "(1 :: u8) \<le> 5" "(5 :: u8) \<le> 8" by simp_all
  note t = feedback_packing [OF h, of "dualsense_init (- 1)" "''right''"]
  from t have s: "fst (command_trigger_feedback (dualsense_init (- 1)) ''right'' 3 5) = Success"
    by blast
  from t have z: "bit (param_active_zones ?P) i \<longleftrightarrow> unat (3 :: u8) \<le> i \<and> i < 10" for i
    by blast
  from t have "unat (3 :: u8) \<le> 3 \<and> (3 :: nat) < 10 \<longrightarrow>
      drop_bit (3 * 3) (param_strength_zones ?P) AND 0x07 = ucast (5 - 1 :: u8)"
    by blast
  then have f: "drop_bit 9 (param_strength_zones ?P) AND 0x07 = 4" by simp
  from t have q: "param_frequency ?P = 0" by blast
  have z2: "\<not> bit (param_active_zones ?P) 2" and z3: "bit (param_active_zones ?P) 3"
    by (simp_all add: z)
  from h s z2 z3 f q show ?thesis by (intro conjI)
qed

subsection \<open>C5: the sequence number of a Bluetooth report\<close>

text \<open>
  C5 as stated fails in its consequence for the reports that are sent: the Bluetooth
  sends of one session need not carry consecutive nibbles. Run \<^verbatim>\<open>lightbar on\<close>,
  \<^verbatim>\<open>lightbar blink\<close>, \<^verbatim>\<open>lightbar on\<close> on one Bluetooth session: the second command
  builds its report, turns the state down and returns 1 without sending, so three
  reports are built and two are sent, and the two carry the nibbles 0 and 2, not 0
  and 1.
\<close>

theorem sequence_counter_counterexample:
  "bt (dualsense_init (- 1)) \<and>
   fst (main_command (snd (main_command (dualsense_init (- 1)) (Lightbar1 ''on'')))
     (Lightbar1 ''blink'')) = Failure 1 ''Invalid state'' \<and>
   length (dev (session (dualsense_init (- 1))
     [Lightbar1 ''on'', Lightbar1 ''blink'', Lightbar1 ''on''])) = 2 \<and>
   map (unat \<circ> seq_nibble) (dev (session (dualsense_init (- 1))
     [Lightbar1 ''on'', Lightbar1 ''blink'', Lightbar1 ''on''])) = [0, 2] \<and>
   map (unat \<circ> seq_nibble) (dev (session (dualsense_init (- 1))
     [Lightbar1 ''on'', Lightbar1 ''blink'', Lightbar1 ''on''])) \<noteq> [0, 1] \<and>
   output_seq (session (dualsense_init (- 1))
     [Lightbar1 ''on'', Lightbar1 ''blink'', Lightbar1 ''on'']) = 3"
  by (simp add: command_lightbar1_def init_report_of Let_def send_report_of
      dualsense_init_def next_seq_def seq_nibble_wire)

text \<open>
  C5, amended. A session starts with the counter at 0. On Bluetooth the \<open>N\<close>-th report
  built (counting from 0) carries \<open>N mod 16\<close> in the high nibble of its second byte;
  building a report takes the counter from \<open>n\<close> to \<open>(n + 1) mod 16\<close>. When every
  command of a run sends its report, the reports on the wire carry the nibbles 0, 1,
  2, \<dots>, 15, 0, 1, \<dots> in this order, one for each command; and so they do, one for
  each report sent, when every report that is built is sent, that is when each command
  of the run either sends its report or fails before it builds one. On USB building a
  report leaves the session as it is, and no command changes the counter.
\<close>

theorem sequence_counter:
  "output_seq (dualsense_init interface_number) = 0 \<and>
   unat (seq_nibble (rp_data (snd (dualsense_init_output_report
     (((fst \<circ> dualsense_init_output_report) ^^ N) (dualsense_init (- 1))))))) = N mod 16 \<and>
   (bt ds \<and> unat (output_seq ds) < 16 \<longrightarrow>
      unat (output_seq (fst (dualsense_init_output_report ds))) =
      (unat (output_seq ds) + 1) mod 16) \<and>
   (all_sent (dualsense_init (- 1)) cs \<longrightarrow>
      map (unat \<circ> seq_nibble) (dev (session (dualsense_init (- 1)) cs)) =
      map (\<lambda>j. j mod 16) [0..<length cs]) \<and>
   (every_built_sent (dualsense_init (- 1)) cs \<longrightarrow>
      map (unat \<circ> seq_nibble) (dev (session (dualsense_init (- 1)) cs)) =
      map (\<lambda>j. j mod 16) [0..<length (dev (session (dualsense_init (- 1)) cs))]) \<and>
   (\<not> bt ds \<longrightarrow>
      fst (dualsense_init_output_report ds) = ds \<and>
      output_seq (snd (main_command ds c)) = output_seq ds)"
proof (intro conjI impI)
  show "output_seq (dualsense_init interface_number) = 0"
    by (simp add: dualsense_init_def)
next
  let ?D = "dualsense_init (- 1)"
  have D: "bt ?D" "output_seq ?D = of_nat (0 mod 16)"
    by (simp_all add: dualsense_init_def)
  from next_seq_iterate [OF D, of N]
  have b: "bt ((next_seq ^^ N) ?D)" and s: "output_seq ((next_seq ^^ N) ?D) = of_nat (N mod 16)"
    by simp_all
  have "unat (output_seq ((next_seq ^^ N) ?D)) < 16" by (simp add: s unat_nibble)
  then show "unat (seq_nibble (rp_data (snd (dualsense_init_output_report
     (((fst \<circ> dualsense_init_output_report) ^^ N) ?D))))) = N mod 16"
    unfolding fst_init
    by (simp add: init_report_of seq_nibble_report_of [OF b] nibble_roundtrip s unat_nibble)
next
  assume a: "bt ds \<and> unat (output_seq ds) < 16"
  then have "output_seq ds = of_nat (unat (output_seq ds) mod 16)" by simp
  from output_seq_next_seq [OF _ this] a
  show "unat (output_seq (fst (dualsense_init_output_report ds))) =
      (unat (output_seq ds) + 1) mod 16"
    by (simp add: init_report_of unat_nibble)
next
  let ?D = "dualsense_init (- 1)"
  assume "all_sent ?D cs"
  moreover have "bt ?D" "output_seq ?D = of_nat (0 mod 16)" "dev ?D = []"
    by (simp_all add: dualsense_init_def)
  ultimately show "map (unat \<circ> seq_nibble) (dev (session ?D cs)) =
      map (\<lambda>j. j mod 16) [0..<length cs]"
    using session_sent [of ?D 0 cs] by auto
next
  let ?D = "dualsense_init (- 1)"
  assume "every_built_sent ?D cs"
  moreover have "bt ?D" "output_seq ?D = of_nat (0 mod 16)" "dev ?D = []"
    by (simp_all add: dualsense_init_def)
  ultimately show "map (unat \<circ> seq_nibble) (dev (session ?D cs)) =
      map (\<lambda>j. j mod 16) [0..<length (dev (session ?D cs))]"
    using session_every_built_sent [of ?D 0 cs] by auto
next
  assume "\<not> bt ds"
  then show "fst (dualsense_init_output_report ds) = ds"
    by (simp add: init_report_of next_seq_def)
next
  assume "\<not> bt ds"
  then show "output_seq (snd (main_command ds c)) = output_seq ds"
    by (rule usb_session_untouched)
qed

text \<open>
  The eighteenth report built carries nibble 1; from 15 the counter goes to 0; the three
  reports of \<^verbatim>\<open>lightbar on\<close>, \<^verbatim>\<open>volume 3\<close>, \<^verbatim>\<open>trigger left off\<close> carry 0, 1, 2; of
  \<^verbatim>\<open>lightbar on\<close>, \<^verbatim>\<open>player-leds 9\<close>, \<^verbatim>\<open>volume 3\<close> the second fails before it builds a
  report, and the two reports sent carry 0, 1; on USB \<^verbatim>\<open>lightbar on\<close> leaves the
  counter at 0.
\<close>

theorem sequence_counter_witness:
  "unat (seq_nibble (rp_data (snd (dualsense_init_output_report
     (((fst \<circ> dualsense_init_output_report) ^^ 17) (dualsense_init (- 1))))))) = 1 \<and>
   unat (output_seq (fst (dualsense_init_output_report
     ((dualsense_init (- 1))\<lparr>output_seq := 15\<rparr>)))) = 0 \<and>
   all_sent (dualsense_init (- 1)) [Lightbar1 ''on'', Volume 3, Trigger ''left'' Off] \<and>
   map (unat \<circ> seq_nibble)
     (dev (session (dualsense_init (- 1)) [Lightbar1 ''on'', Volume 3, Trigger ''left'' Off])) =
     [0, 1, 2] \<and>
   every_built_sent (dualsense_init (- 1)) [Lightbar1 ''on'', Player_leds 9, Volume 3] \<and>
   fst (main_command (snd (main_command (dualsense_init (- 1)) (Lightbar1 ''on'')))
     (Player_leds 9)) = Failure 1 ''Invalid player number'' \<and>
   map (unat \<circ> seq_nibble)
     (dev (session (dualsense_init (- 1)) [Lightbar1 ''on'', Player_leds 9, Volume 3])) =
     [0, 1] \<and>
   output_seq (snd (main_command (dualsense_init 0) (Lightbar1 ''on''))) = 0"
proof -
  let ?D = "dualsense_init (- 1)" and ?U = "dualsense_init 0"
  let ?cs = "[Lightbar1 ''on'', Volume 3, Trigger ''left'' Off]"
  let ?cs' = "[Lightbar1 ''on'', Player_leds 9, Volume 3]"
  note t = sequence_counter [of 0 17 "?D\<lparr>output_seq := 15\<rparr>" ?cs]
  note u = sequence_counter [of 0 0 ?U "[]" "Lightbar1 ''on''"]
  note v = sequence_counter [of 0 0 ?D ?cs']
  have a: "all_sent ?D ?cs"
    by (simp add: command_lightbar1_def command_volume_def main_trigger_def
        command_trigger_off_def command_trigger_result init_report_of Let_def)
  have b: "bt (?D\<lparr>output_seq := 15\<rparr>) \<and> unat (output_seq (?D\<lparr>output_seq := 15\<rparr>)) < 16"
    by (simp add: dualsense_init_def)
  have e: "every_built_sent ?D ?cs'"
    by (simp add: command_lightbar1_def command_player_leds_def command_volume_def
        init_report_of Let_def)
  have f: "fst (main_command (snd (main_command ?D (Lightbar1 ''on''))) (Player_leds 9)) =
      Failure 1 ''Invalid player number''"
    by (simp add: command_player_leds_def)
  have l: "length (dev (session ?D ?cs')) = 2"
    by (simp add: command_lightbar1_def command_player_leds_def command_volume_def
        init_report_of Let_def send_report_of dualsense_init_def)
  have n: "\<not> bt ?U" by (simp add: dualsense_init_def)
  from t have 1: "unat (seq_nibble (rp_data (snd (dualsense_init_output_report
     (((fst \<circ> dualsense_init_output_report) ^^ 17) ?D))))) = 1"
    by simp
  from t b have 2: "unat (output_seq (fst (dualsense_init_output_report
     (?D\<lparr>output_seq := 15\<rparr>)))) = 0"
    by simp
  from t [THEN conjunct2, THEN conjunct2, THEN conjunct2, THEN conjunct1] a
  have 3: "map (unat \<circ> seq_nibble) (dev (session ?D ?cs)) = [0, 1, 2]"
    by (simp add: upt_rec)
  from v [THEN conjunct2, THEN conjunct2, THEN conjunct2, THEN conjunct2, THEN conjunct1] e
  have "map (unat \<circ> seq_nibble) (dev (session ?D ?cs')) =
      map (\<lambda>j. j mod 16) [0..<length (dev (session ?D ?cs'))]"
    by (rule mp)
  then have 5: "map (unat \<circ> seq_nibble) (dev (session ?D ?cs')) = [0, 1]"
    unfolding l by (simp add: upt_rec)
  from u n have 4: "output_seq (snd (main_command ?U (Lightbar1 ''on''))) = 0"
    by (simp add: dualsense_init_def)
  from 1 2 a 3 e f 5 4 show ?thesis by (intro conjI)
qed

subsection \<open>C6: validation of the weapon effect\<close>

text \<open>
  C6. \<^verbatim>\<open>command_trigger_weapon\<close> returns 0 exactly when start is in 2 to 7, end is in
  start + 1 to 8 and strength is in 1 to 8. With side "right", start 2, end 8 and
  strength 8 it returns 0; with start 1 instead it fails, naming the bound 2 to 7 of
  the start position, and leaves the session as it was.
\<close>

theorem weapon_validation:
  "(fst (command_trigger_weapon ds trigger start_position end_position strength) = Success) =
     (2 \<le> unat start_position \<and> unat start_position \<le> 7 \<and>
      unat start_position + 1 \<le> unat end_position \<and> unat end_position \<le> 8 \<and>
      1 \<le> unat strength \<and> unat strength \<le> 8) \<and>
   fst (command_trigger_weapon ds ''right'' 2 8 8) = Success \<and>
   command_trigger_weapon ds ''right'' 1 8 8 =
     (Failure 1 ''start position must be between 2 and 7'', ds)"
  by (auto simp add: command_trigger_weapon_def Let_def command_trigger_result not_less
      word_le_nat_alt word_less_nat_alt unat_gt_0 Suc_le_eq)

subsection \<open>C7: validation of the bow effect\<close>

text \<open>
  C7. The bow effect is to accept a start position from 0 to 8, and the message of
  \<^verbatim>\<open>command_trigger_bow\<close> says so; its guard \<^verbatim>\<open>!(start_position > 0)\<close> turns the start
  position 0 down under that very message. With start 0, end 8, strength 8 and snap
  force 8 the command fails and the session is untouched, while start 1 is accepted.
\<close>

theorem bow_start_zero_rejected:
  "command_trigger_bow (dualsense_init (- 1)) ''right'' 0 8 8 8 =
     (Failure 1 ''start position must be between 0 and 8'', dualsense_init (- 1)) \<and>
   fst (command_trigger_bow (dualsense_init (- 1)) ''right'' 1 8 8 8) = Success"
  by (simp add: command_trigger_bow_def Let_def command_trigger_result)

subsection \<open>C8: parameters out of range\<close>

text \<open>
  C8. A frequency of 0 is outside the range of the vibration effects, and
  \<^verbatim>\<open>command_trigger_vibration\<close> turns it down before anything is built. The raw variant
  \<^verbatim>\<open>command_trigger_vibration_raw\<close> has no such guard: with ten amplitudes of 1 and
  frequency 0 on a fresh Bluetooth session it returns 0, hands one report to
  \<^verbatim>\<open>hid_write\<close> and advances the sequence counter to 1.
\<close>

theorem vibration_raw_zero_frequency_sent:
  "fst (main_trigger (dualsense_init (- 1)) ''left'' (Vibration_raw 1 1 1 1 1 1 1 1 1 1 0)) =
     Success \<and>
   length (new_reports (dualsense_init (- 1))
     (snd (main_trigger (dualsense_init (- 1)) ''left''
        (Vibration_raw 1 1 1 1 1 1 1 1 1 1 0)))) = 1 \<and>
   output_seq (snd (main_trigger (dualsense_init (- 1)) ''left''
     (Vibration_raw 1 1 1 1 1 1 1 1 1 1 0))) = 1 \<and>
   main_trigger (dualsense_init (- 1)) ''left'' (Vibration 0 1 0) =
     (Failure 1 ''frequency must be greater than 0'', dualsense_init (- 1))"
proof -
  let ?D = "dualsense_init (- 1)"
  let ?s = "[1, 1, 1, 1, 1, 1, 1, 1, 1, 1 :: u8]"
  have "\<forall>x \<in> set ?s. x \<le> 8" by simp
  then have "\<forall>k<10. ?s ! k \<le> 8"
    unfolding all_set_conv_all_nth by simp
  then obtain sz az where loop: "bitpacking_loop 0 ?s (0, 0) = Some (sz, az)"
    using bitpacking_loop_Some [of ?s 0 "(0, 0)"] by auto
  have raw: "main_trigger ?D ''left'' (Vibration_raw 1 1 1 1 1 1 1 1 1 1 0) =
      command_trigger ?D ''left'' 0x26 (ucast (az AND 0xff)) (ucast (drop_bit 8 az AND 0xff))
        (ucast (sz AND 0xff)) (ucast (drop_bit 8 sz AND 0xff)) (ucast (drop_bit 16 sz AND 0xff))
        (ucast (drop_bit 24 sz AND 0xff)) 0 0 0"
    by (simp add: main_trigger_def command_trigger_vibration_raw_def
        trigger_bitpacking_array_def loop DS_TRIGGER_EFFECT_VIBRATION_def)
  have "dualsense_init (- 1) = \<lparr>bt = True, dev = [], output_seq = 0\<rparr>"
    by (simp add: dualsense_init_def)
  then have seq: "output_seq (next_seq ?D) = 1"
    by (simp add: next_seq_def)
  have vib: "main_trigger ?D ''left'' (Vibration 0 1 0) =
      (Failure 1 ''frequency must be greater than 0'', ?D)"
    by (simp add: main_trigger_def command_trigger_vibration_def)
  show ?thesis
    unfolding raw vib by (simp add: command_trigger_eq seq)
qed

subsection \<open>C9: both trigger blocks carry the same bytes\<close>

text \<open>
  C9. Whatever the side (\<^verbatim>\<open>"left"\<close>, \<^verbatim>\<open>"right"\<close>, \<^verbatim>\<open>"both"\<close>, or any other string), the
  mode and the nine parameters, the report that \<^verbatim>\<open>command_trigger\<close> sends carries the
  mode byte and the ten parameter bytes (the nine parameters and a zero) identically in
  the right-trigger and the left-trigger block. The side decides the enable bits of
  \<^verbatim>\<open>valid_flag0\<close> (bit 2 for right, bit 3 for left) and nothing else in the common block:
  from its second byte on the block is the same for any two sides.
\<close>

theorem trigger_blocks_mirrored:
  "wire_right_trigger_motor_mode (wire_common (bt ds)
     (last (dev (snd (command_trigger ds trigger mode p1 p2 p3 p4 p5 p6 p7 p8 p9))))) = mode \<and>
   wire_left_trigger_motor_mode (wire_common (bt ds)
     (last (dev (snd (command_trigger ds trigger mode p1 p2 p3 p4 p5 p6 p7 p8 p9))))) = mode \<and>
   wire_right_trigger_param (wire_common (bt ds)
     (last (dev (snd (command_trigger ds trigger mode p1 p2 p3 p4 p5 p6 p7 p8 p9))))) =
     [p1, p2, p3, p4, p5, p6, p7, p8, p9, 0] \<and>
   wire_left_trigger_param (wire_common (bt ds)
     (last (dev (snd (command_trigger ds trigger mode p1 p2 p3 p4 p5 p6 p7 p8 p9))))) =
     [p1, p2, p3, p4, p5, p6, p7, p8, p9, 0] \<and>
   wire_valid_flag0 (wire_common (bt ds)
     (last (dev (snd (command_trigger ds trigger mode p1 p2 p3 p4 p5 p6 p7 p8 p9))))) =
     (if trigger = ''right'' \<or> trigger = ''both'' then BIT 2 else 0) OR
     (if trigger = ''left'' \<or> trigger = ''both'' then BIT 3 else 0) \<and>
   drop 1 (wire_common (bt ds)
     (last (dev (snd (command_trigger ds trigger mode p1 p2 p3 p4 p5 p6 p7 p8 p9))))) =
   drop 1 (wire_common (bt ds)
     (last (dev (snd (command_trigger ds trigger' mode p1 p2 p3 p4 p5 p6 p7 p8 p9)))))"
  by (simp add: command_trigger_wire wire_right_trigger_motor_mode_def
      wire_left_trigger_motor_mode_def wire_right_trigger_param_def wire_left_trigger_param_def
      wire_valid_flag0_def trigger_enable_def
      DS_OUTPUT_VALID_FLAG0_RIGHT_TRIGGER_MOTOR_ENABLE_def
      DS_OUTPUT_VALID_FLAG0_LEFT_TRIGGER_MOTOR_ENABLE_def)

subsection \<open>C10: the tenth parameter byte\<close>

text \<open>
  C10. In every report that a trigger command sends (each named effect and the numeric
  mode of \<^verbatim>\<open>main\<close>), each trigger block has ten parameter bytes and the one at index 9
  is 0.
\<close>

theorem trigger_param_last_byte_zero:
  "\<forall>r \<in> set (new_reports ds (snd (main_trigger ds trigger effect))).
     length (wire_right_trigger_param (wire_common (bt ds) r)) = 10 \<and>
     length (wire_left_trigger_param (wire_common (bt ds) r)) = 10 \<and>
     wire_right_trigger_param (wire_common (bt ds) r) ! 9 = 0 \<and>
     wire_left_trigger_param (wire_common (bt ds) r) ! 9 = 0"
proof
  fix r assume r: "r \<in> set (new_reports ds (snd (main_trigger ds trigger effect)))"
  from trigger_shape_reports [OF shape_main_trigger r]
  show "length (wire_right_trigger_param (wire_common (bt ds) r)) = 10 \<and>
     length (wire_left_trigger_param (wire_common (bt ds) r)) = 10 \<and>
     wire_right_trigger_param (wire_common (bt ds) r) ! 9 = 0 \<and>
     wire_left_trigger_param (wire_common (bt ds) r) ! 9 = 0"
    by (auto simp add: wire_right_trigger_param_def wire_left_trigger_param_def)
qed

text \<open>
  The numeric mode 0x21 with parameters 1 to 9 on the left trigger of a USB session: one
  report goes out, and byte 9 of both parameter arrays is 0.
\<close>

theorem trigger_param_last_byte_zero_witness:
  "new_reports (dualsense_init 0)
     (snd (main_trigger (dualsense_init 0) ''left'' (Mode 0x21 1 2 3 4 5 6 7 8 9))) \<noteq> [] \<and>
   wire_right_trigger_param (wire_common (bt (dualsense_init 0))
     (hd (new_reports (dualsense_init 0)
       (snd (main_trigger (dualsense_init 0) ''left'' (Mode 0x21 1 2 3 4 5 6 7 8 9)))))) ! 9 = 0 \<and>
   wire_left_trigger_param (wire_common (bt (dualsense_init 0))
     (hd (new_reports (dualsense_init 0)
       (snd (main_trigger (dualsense_init 0) ''left'' (Mode 0x21 1 2 3 4 5 6 7 8 9)))))) ! 9 = 0"
proof -
  let ?D = "dualsense_init 0"
  let ?N = "new_reports ?D (snd (main_trigger ?D ''left'' (Mode 0x21 1 2 3 4 5 6 7 8 9)))"
  have n: "?N \<noteq> []"
    by (simp add: main_trigger_def command_trigger_eq)
  then have "hd ?N \<in> set ?N" by simp
  with trigger_param_last_byte_zero [of ?D "''left''" "Mode 0x21 1 2 3 4 5 6 7 8 9"] n
  show ?thesis by blast
qed

end
